theory Spec2Isabelle
  imports Complex_Main "HOL-Library.AList"
begin

section \<open>Cached views on an HTCondor pool\<close>

text \<open>
  A shallow embedding of \<^verbatim>\<open>cobald_condor_limits/query_view.py\<close> and
  \<^verbatim>\<open>cobald_condor_limits/adapter.py\<close>.

  \<^item> Strings are lists of 8-bit characters, read as the code points below 256.
  \<^item> A Python \<^verbatim>\<open>dict\<close> is an association list in insertion order with distinct keys;
    \<open>map_of\<close> reads it and \<open>AList.update\<close> is the assignment \<^verbatim>\<open>d[k] = v\<close>.
  \<^item> The floats a view caches are real numbers: rounding, infinities and NaN are not
    modelled there. The builtin \<^verbatim>\<open>float(s)\<close> is a parameter \<open>flt\<close> of every function
    that reaches it; \<open>None\<close> stands for its \<^verbatim>\<open>ValueError\<close>. The float that is written
    to a limit is a \<open>pyfloat\<close>: a real number, an infinity or NaN.
  \<^item> An exception is the left injection of a sum; every function that can raise returns
    \<open>exn + 'a\<close> together with the state it leaves behind.
  \<^item> The clock, the external commands and the loggers are the record \<open>world\<close>, passed
    through every function that touches them.
\<close>

subsection \<open>Strings\<close>

text \<open>\<^verbatim>\<open>str.isspace\<close> on the code points below 256.\<close>

definition is_space :: "char \<Rightarrow> bool" where
  "is_space c \<longleftrightarrow> c \<in> set [CHR 0x09, CHR 0x0A, CHR 0x0B, CHR 0x0C, CHR 0x0D,
     CHR 0x1C, CHR 0x1D, CHR 0x1E, CHR 0x1F, CHR 0x20, CHR 0x85, CHR 0xA0]"

text \<open>\<^verbatim>\<open>s.strip()\<close>\<close>

definition strip :: "string \<Rightarrow> string" where
  "strip s = rev (dropWhile is_space (rev (dropWhile is_space s)))"

text \<open>\<^verbatim>\<open>s.split()\<close>: the maximal runs of characters that are not whitespace.\<close>

fun split_acc :: "string \<Rightarrow> string \<Rightarrow> string list" where
  "split_acc cur [] = (if cur = [] then [] else [cur])"
| "split_acc cur (c # cs) =
     (if is_space c then (if cur = [] then split_acc [] cs else cur # split_acc [] cs)
      else split_acc (cur @ [c]) cs)"

definition split_ws :: "string \<Rightarrow> string list" where
  "split_ws s = split_acc [] s"

text \<open>\<^verbatim>\<open>s.lower()\<close>, character by character: the upper-case letters below 256 are
  \<^verbatim>\<open>A-Z\<close> and \<^verbatim>\<open>0xC0-0xDE\<close> without \<^verbatim>\<open>0xD7\<close>, each 32 below its lower-case
  letter.\<close>

definition lower_chr :: "char \<Rightarrow> char" where
  "lower_chr c =
     (let n = (of_char c :: nat)
      in if (65 \<le> n \<and> n \<le> 90) \<or> (192 \<le> n \<and> n \<le> 222 \<and> n \<noteq> 215)
         then char_of (n + 32) else c)"

definition lower :: "string \<Rightarrow> string" where
  "lower s = map lower_chr s"

text \<open>\<^verbatim>\<open>s.replace(a, b)\<close> for single characters \<open>a\<close> and \<open>b\<close>.\<close>

definition replace_chr :: "char \<Rightarrow> char \<Rightarrow> string \<Rightarrow> string" where
  "replace_chr a b s = map (\<lambda>c. if c = a then b else c) s"

text \<open>\<^verbatim>\<open>str(n)\<close> for an integer \<open>n\<close>.\<close>

fun str_nat :: "nat \<Rightarrow> string" where
  "str_nat n = (if n < 10 then [char_of (48 + n)] else str_nat (n div 10) @ [char_of (48 + n mod 10)])"

definition str_int :: "int \<Rightarrow> string" where
  "str_int i = (if i < 0 then CHR ''-'' # str_nat (nat (- i)) else str_nat (nat i))"


text \<open>
  A conversion for the worked examples: optionally signed decimal integers, on which it
  agrees with \<^verbatim>\<open>float\<close>; every other string is refused. The general theorems hold
  for every conversion \<open>flt\<close>.
\<close>

definition is_digit :: "char \<Rightarrow> bool" where
  "is_digit c \<longleftrightarrow> (48::int) \<le> of_char c \<and> (of_char c :: int) \<le> 57"

definition digits_val :: "string \<Rightarrow> int" where
  "digits_val ds = foldl (\<lambda>a c. 10 * a + (of_char c - 48)) 0 ds"

definition decimal_float :: "string \<Rightarrow> real option" where
  "decimal_float s =
     (let t = strip s;
          neg = (t \<noteq> [] \<and> hd t = CHR ''-'');
          ds = (if t \<noteq> [] \<and> (hd t = CHR ''-'' \<or> hd t = CHR ''+'') then tl t else t)
      in if ds \<noteq> [] \<and> list_all is_digit ds
         then Some (if neg then - real_of_int (digits_val ds) else real_of_int (digits_val ds))
         else None)"

subsection \<open>Exceptions, the dictionary type and the world\<close>

datatype exn = QueryError | KeyError | ValueError | TypeError | OverflowError
  | CalledProcessError | TimeoutExpired | OSError

text \<open>
  \<^verbatim>\<open>int(x)\<close> for a float \<open>x\<close>: a finite float is cut towards zero, an infinity raises
  \<^verbatim>\<open>OverflowError\<close> and NaN raises \<^verbatim>\<open>ValueError\<close>.
\<close>

datatype pyfloat = Finite real | PosInf | NegInf | NaN

definition py_int :: "pyfloat \<Rightarrow> exn + int" where
  "py_int x =
     (case x of
        Finite r \<Rightarrow> Inr (if 0 \<le> r then \<lfloor>r\<rfloor> else \<lceil>r\<rceil>)
      | PosInf \<Rightarrow> Inl OverflowError
      | NegInf \<Rightarrow> Inl OverflowError
      | NaN \<Rightarrow> Inl ValueError)"

type_synonym pydict = "(string \<times> real) list"

text \<open>The value of \<^verbatim>\<open>self._data\<close>: a dictionary, or \<^verbatim>\<open>None\<close>.\<close>

type_synonym pydata = "pydict option"

text \<open>\<^verbatim>\<open>d[k]\<close>, \<^verbatim>\<open>len(d)\<close> and \<^verbatim>\<open>iter(d)\<close>; on \<^verbatim>\<open>None\<close> each raises
  \<^verbatim>\<open>TypeError\<close>.\<close>

definition subscript :: "pydata \<Rightarrow> string \<Rightarrow> exn + real" where
  "subscript d k =
     (case d of None \<Rightarrow> Inl TypeError
      | Some m \<Rightarrow> (case map_of m k of None \<Rightarrow> Inl KeyError | Some x \<Rightarrow> Inr x))"

definition len :: "pydata \<Rightarrow> exn + nat" where
  "len d = (case d of None \<Rightarrow> Inl TypeError | Some m \<Rightarrow> Inr (length m))"

definition iter :: "pydata \<Rightarrow> exn + string list" where
  "iter d = (case d of None \<Rightarrow> Inl TypeError | Some m \<Rightarrow> Inr (map fst m))"

text \<open>
  One call of \<^verbatim>\<open>subprocess.check_output\<close> or \<^verbatim>\<open>subprocess.check_call\<close>: the command
  line and the \<^verbatim>\<open>timeout\<close> argument. It ends in one of four ways: exit status 0 with
  its output (given as \<^verbatim>\<open>splitlines()\<close> returns it), another exit status
  (\<^verbatim>\<open>CalledProcessError\<close>), the timeout (\<^verbatim>\<open>TimeoutExpired\<close>), or the program could
  not be started (\<^verbatim>\<open>FileNotFoundError\<close> or \<^verbatim>\<open>PermissionError\<close>, both an
  \<^verbatim>\<open>OSError\<close>).
\<close>

record invocation =
  argv :: "string list"
  timeout :: "nat option"

datatype outcome = Completed "string list" | NonZeroExit | TimedOut | NotStarted

datatype channel = Runtime | Monitor

datatype level = DEBUG | ERROR

datatype message =
    Querying "string option"
  | QueryingFailed "string option"
  | QueryingResult "string option" pydata
  | ConstraintFailed string string

text \<open>
  \<open>clock\<close> is what \<^verbatim>\<open>time.time()\<close> returns; \<open>script n\<close> is how the \<open>n\<close>-th external
  command ends and how long it takes; \<open>issued\<close> and \<open>logged\<close> record the commands run
  and the log records written so far.
\<close>

record world =
  clock :: real
  script :: "nat \<Rightarrow> outcome \<times> real"
  issued :: "invocation list"
  logged :: "(channel \<times> level \<times> message) list"

definition emit :: "channel \<Rightarrow> level \<Rightarrow> message \<Rightarrow> world \<Rightarrow> world" where
  "emit ch lv m w = w\<lparr>logged := logged w @ [(ch, lv, m)]\<rparr>"

definition run_process :: "invocation \<Rightarrow> world \<Rightarrow> outcome \<times> world" where
  "run_process cmd w =
     (case script w (length (issued w)) of
        (r, dt) \<Rightarrow> (r, w\<lparr>clock := clock w + dt, issued := issued w @ [cmd]\<rparr>))"

definition check_output :: "invocation \<Rightarrow> world \<Rightarrow> (exn + string list) \<times> world" where
  "check_output cmd w =
     (case run_process cmd w of
        (Completed ls, w') \<Rightarrow> (Inr ls, w')
      | (NonZeroExit, w') \<Rightarrow> (Inl CalledProcessError, w')
      | (TimedOut, w') \<Rightarrow> (Inl TimeoutExpired, w')
      | (NotStarted, w') \<Rightarrow> (Inl OSError, w'))"

definition check_call :: "invocation \<Rightarrow> world \<Rightarrow> (exn + unit) \<times> world" where
  "check_call cmd w =
     (case run_process cmd w of
        (Completed ls, w') \<Rightarrow> (Inr (), w')
      | (NonZeroExit, w') \<Rightarrow> (Inl CalledProcessError, w')
      | (TimedOut, w') \<Rightarrow> (Inl TimeoutExpired, w')
      | (NotStarted, w') \<Rightarrow> (Inl OSError, w'))"

subsection \<open>\<^verbatim>\<open>pool_command\<close> and \<^verbatim>\<open>query_limits\<close>\<close>

text \<open>Every caller passes a command line with a first element; an empty one with a pool
  raises \<^verbatim>\<open>IndexError\<close> in the source and has no equation here.\<close>

fun pool_command :: "string list \<Rightarrow> string option \<Rightarrow> string list" where
  "pool_command base_command None = base_command"
| "pool_command (b # bs) (Some pool) = [b] @ [''-pool'', pool] @ bs"

text \<open>
  The loop of \<^verbatim>\<open>query_limits\<close> over the lines of the output, with the dictionary built
  so far. \<^verbatim>\<open>item.partition('=')\<close> of a line that holds \<^verbatim>\<open>=\<close> is the text before the
  first \<^verbatim>\<open>=\<close> and the text after it. A key transform returns \<open>None\<close> where the
  source's raises \<^verbatim>\<open>ValueError\<close>.
\<close>

fun limits_loop ::
  "(string \<Rightarrow> real option) \<Rightarrow> (string \<Rightarrow> string option) \<Rightarrow> string list \<Rightarrow> pydict \<Rightarrow> pydict"
where
  "limits_loop flt key_transform [] resource_limits = resource_limits"
| "limits_loop flt key_transform (item # items) resource_limits =
     (if CHR ''='' \<notin> set item then limits_loop flt key_transform items resource_limits
      else
        let key = strip (takeWhile (\<lambda>c. c \<noteq> CHR ''='') item);
            val = strip (drop 1 (dropWhile (\<lambda>c. c \<noteq> CHR ''='') item))
        in case key_transform key of
             None \<Rightarrow> limits_loop flt key_transform items resource_limits
           | Some resource \<Rightarrow>
               (case flt val of
                  Some x \<Rightarrow>
                    limits_loop flt key_transform items (AList.update resource x resource_limits)
                | None \<Rightarrow> limits_loop flt key_transform items resource_limits))"

definition query_limits ::
  "(string \<Rightarrow> real option) \<Rightarrow> string list \<Rightarrow> (string \<Rightarrow> string option) \<Rightarrow> world
     \<Rightarrow> (exn + pydict) \<times> world"
where
  "query_limits flt query_command key_transform w =
     (case check_output \<lparr>argv = query_command, timeout = Some 10\<rparr> w of
        (Inl e, w') \<Rightarrow> (Inl e, w')
      | (Inr ls, w') \<Rightarrow> (Inr (limits_loop flt key_transform ls []), w'))"

subsection \<open>\<^verbatim>\<open>CondorPoolView\<close> and its three subclasses\<close>

datatype view_class = ConcurrencyConstraintView | ConcurrencyUsageView | PoolResources

text \<open>The object: its class and the attributes \<^verbatim>\<open>pool\<close>, \<^verbatim>\<open>max_age\<close>,
  \<^verbatim>\<open>_valid_date\<close> and \<^verbatim>\<open>_data\<close>.\<close>

record view =
  cls :: view_class
  pool :: "string option"
  max_age :: real
  valid_date :: real
  data :: pydata

definition init :: "view_class \<Rightarrow> string option \<Rightarrow> real \<Rightarrow> view" where
  "init c p m = \<lparr>cls = c, pool = p, max_age = m, valid_date = 0, data = Some []\<rparr>"

text \<open>\<^verbatim>\<open>ConcurrencyConstraintView._key_to_resource\<close>: \<^verbatim>\<open>key.lower()[-6:]\<close> is the last
  six characters of the lowered key (all of it when it is shorter), \<^verbatim>\<open>key[:-6]\<close> the
  key without its last six.\<close>

definition constraint_key_to_resource :: "string \<Rightarrow> string option" where
  "constraint_key_to_resource key =
     (if drop (length key - 6) (lower key) = ''_limit''
      then Some (take (length key - 6) key) else None)"

text \<open>\<^verbatim>\<open>ConcurrencyUsageView._key_to_resource\<close>\<close>

definition usage_key_to_resource :: "string \<Rightarrow> string option" where
  "usage_key_to_resource key =
     (if take 17 key = ''ConcurrencyLimit_'' then Some (drop 17 key) else None)"

text \<open>\<^verbatim>\<open>ConcurrencyConstraintView._query_data\<close> and \<^verbatim>\<open>ConcurrencyUsageView._query_data\<close>:
  only \<^verbatim>\<open>CalledProcessError\<close> becomes \<^verbatim>\<open>QueryError\<close>.\<close>

definition constraint_query_data ::
  "(string \<Rightarrow> real option) \<Rightarrow> view \<Rightarrow> world \<Rightarrow> (exn + pydata) \<times> world"
where
  "constraint_query_data flt v w =
     (case query_limits flt
             (pool_command [''condor_config_val'', ''-negotiator'', ''-dump'', ''LIMIT''] (pool v))
             constraint_key_to_resource w of
        (Inl CalledProcessError, w') \<Rightarrow> (Inl QueryError, w')
      | (Inl e, w') \<Rightarrow> (Inl e, w')
      | (Inr resource_limits, w') \<Rightarrow> (Inr (Some resource_limits), w'))"

definition usage_query_data ::
  "(string \<Rightarrow> real option) \<Rightarrow> view \<Rightarrow> world \<Rightarrow> (exn + pydata) \<times> world"
where
  "usage_query_data flt v w =
     (case query_limits flt
             (pool_command [''condor_userprio'', ''-negotiator'', ''-long''] (pool v))
             usage_key_to_resource w of
        (Inl CalledProcessError, w') \<Rightarrow> (Inl QueryError, w')
      | (Inl e, w') \<Rightarrow> (Inl e, w')
      | (Inr resource_usage, w') \<Rightarrow> (Inr (Some resource_usage), w'))"

text \<open>
  The loop of \<^verbatim>\<open>PoolResources._query_data\<close> over the lines, with \<^verbatim>\<open>data\<close> and the set
  \<^verbatim>\<open>machines\<close> (a list without repetitions) built so far. The unpacking of
  \<^verbatim>\<open>machine_info.split()\<close> into four names raises \<^verbatim>\<open>ValueError\<close> unless there are
  exactly four fields, and that is caught; the three conversions are in the
  \<^verbatim>\<open>else\<close> branch, so their \<^verbatim>\<open>ValueError\<close> leaves the loop. \<^verbatim>\<open>data[k] += x\<close> is
  \<open>AList.map_entry\<close>: the three keys are in \<^verbatim>\<open>data\<close> from the start.
\<close>

fun machines_loop ::
  "(string \<Rightarrow> real option) \<Rightarrow> string list \<Rightarrow> pydict \<times> string list
     \<Rightarrow> exn + pydict \<times> string list"
where
  "machines_loop flt [] (d, machines) = Inr (d, machines)"
| "machines_loop flt (machine_info # rest) (d, machines) =
     (case split_ws machine_info of
        [cpus, memory, disk, machine] \<Rightarrow>
          (case flt cpus of None \<Rightarrow> Inl ValueError
           | Some c \<Rightarrow>
          (case flt memory of None \<Rightarrow> Inl ValueError
           | Some m \<Rightarrow>
          (case flt disk of None \<Rightarrow> Inl ValueError
           | Some k \<Rightarrow>
             machines_loop flt rest
               (AList.map_entry ''disk'' (\<lambda>y. y + k)
                  (AList.map_entry ''memory'' (\<lambda>y. y + m)
                     (AList.map_entry ''cpus'' (\<lambda>y. y + c) d)),
                List.insert machine machines))))
      | _ \<Rightarrow> machines_loop flt rest (d, machines))"

text \<open>\<^verbatim>\<open>PoolResources._query_data\<close>: \<^verbatim>\<open>check_output\<close> is called without a timeout; on
  \<^verbatim>\<open>CalledProcessError\<close> the function falls off its end and returns \<^verbatim>\<open>None\<close>.\<close>

definition resources_query_data ::
  "(string \<Rightarrow> real option) \<Rightarrow> view \<Rightarrow> world \<Rightarrow> (exn + pydata) \<times> world"
where
  "resources_query_data flt v w =
     (case check_output
             \<lparr>argv = pool_command
                [''condor_status'', ''-startd'', ''-constraint'',
                 ''SlotType!='' @ [CHR 0x22] @ ''Dynamic'' @ [CHR 0x22] @ '' && State=!=''
                   @ [CHR 0x22] @ ''Owner'' @ [CHR 0x22],
                 ''-af'', ''TotalSlotCpus'', ''TotalSlotMemory'', ''TotalSlotDisk'', ''Machine'']
                (pool v),
              timeout = None\<rparr> w of
        (Inl CalledProcessError, w') \<Rightarrow> (Inr None, w')
      | (Inl e, w') \<Rightarrow> (Inl e, w')
      | (Inr ls, w') \<Rightarrow>
          (case machines_loop flt ls
                  ([(''cpus'', 0), (''memory'', 0), (''disk'', 0), (''machines'', 0)], []) of
             Inl e \<Rightarrow> (Inl e, w')
           | Inr (d, machines) \<Rightarrow>
               (Inr (Some (AList.update ''machines'' (real (length machines)) d)), w')))"

text \<open>The call \<^verbatim>\<open>self._query_data()\<close>, resolved by the class of the object.\<close>

definition query_data ::
  "(string \<Rightarrow> real option) \<Rightarrow> view \<Rightarrow> world \<Rightarrow> (exn + pydata) \<times> world"
where
  "query_data flt v w =
     (case cls v of
        ConcurrencyConstraintView \<Rightarrow> constraint_query_data flt v w
      | ConcurrencyUsageView \<Rightarrow> usage_query_data flt v w
      | PoolResources \<Rightarrow> resources_query_data flt v w)"

text \<open>\<^verbatim>\<open>CondorPoolView._try_refresh\<close>: only \<^verbatim>\<open>QueryError\<close> is caught; the second
  reading of the clock is taken after the query.\<close>

definition try_refresh ::
  "(string \<Rightarrow> real option) \<Rightarrow> view \<Rightarrow> world \<Rightarrow> (exn + unit) \<times> view \<times> world"
where
  "try_refresh flt v w =
     (if valid_date v < clock w then
        (case query_data flt v (emit Runtime DEBUG (Querying (pool v)) w) of
           (Inl QueryError, w') \<Rightarrow>
             (Inr (), v, emit Runtime ERROR (QueryingFailed (pool v)) w')
         | (Inl e, w') \<Rightarrow> (Inl e, v, w')
         | (Inr d, w') \<Rightarrow>
             (Inr (), v\<lparr>data := d, valid_date := max_age v + clock w'\<rparr>,
              emit Monitor DEBUG (QueryingResult (pool v) d) w'))
      else (Inr (), v, w))"

text \<open>\<^verbatim>\<open>CondorPoolView.__getitem__\<close>, \<^verbatim>\<open>__len__\<close> and \<^verbatim>\<open>__iter__\<close>\<close>

definition base_getitem ::
  "(string \<Rightarrow> real option) \<Rightarrow> view \<Rightarrow> world \<Rightarrow> string \<Rightarrow> (exn + real) \<times> view \<times> world"
where
  "base_getitem flt v w item =
     (case try_refresh flt v w of
        (Inl e, v', w') \<Rightarrow> (Inl e, v', w')
      | (Inr u, v', w') \<Rightarrow> (subscript (data v') item, v', w'))"

definition view_len ::
  "(string \<Rightarrow> real option) \<Rightarrow> view \<Rightarrow> world \<Rightarrow> (exn + nat) \<times> view \<times> world"
where
  "view_len flt v w =
     (case try_refresh flt v w of
        (Inl e, v', w') \<Rightarrow> (Inl e, v', w')
      | (Inr u, v', w') \<Rightarrow> (len (data v'), v', w'))"

definition view_iter ::
  "(string \<Rightarrow> real option) \<Rightarrow> view \<Rightarrow> world \<Rightarrow> (exn + string list) \<times> view \<times> world"
where
  "view_iter flt v w =
     (case try_refresh flt v w of
        (Inl e, v', w') \<Rightarrow> (Inl e, v', w')
      | (Inr u, v', w') \<Rightarrow> (iter (data v'), v', w'))"

text \<open>\<^verbatim>\<open>ConcurrencyConstraintView.__getitem__\<close>: \<^verbatim>\<open>resource.split('.')[0]\<close> is the text
  before the first dot.\<close>

definition constraint_getitem ::
  "(string \<Rightarrow> real option) \<Rightarrow> view \<Rightarrow> world \<Rightarrow> string \<Rightarrow> (exn + real) \<times> view \<times> world"
where
  "constraint_getitem flt v w resource =
     (case base_getitem flt v w resource of
        (Inl KeyError, v', w') \<Rightarrow>
          (if CHR ''.'' \<in> set resource
           then (subscript (data v') (takeWhile (\<lambda>c. c \<noteq> CHR ''.'') resource), v', w')
           else (Inl KeyError, v', w'))
      | r \<Rightarrow> r)"

text \<open>\<^verbatim>\<open>ConcurrencyUsageView.__getitem__\<close>\<close>

definition usage_getitem ::
  "(string \<Rightarrow> real option) \<Rightarrow> view \<Rightarrow> world \<Rightarrow> string \<Rightarrow> (exn + real) \<times> view \<times> world"
where
  "usage_getitem flt v w resource =
     (case base_getitem flt v w (replace_chr (CHR ''.'') (CHR ''_'') resource) of
        (Inl KeyError, v', w') \<Rightarrow>
          (if CHR ''.'' \<in> set resource
           then (subscript (data v') (takeWhile (\<lambda>c. c \<noteq> CHR ''.'') resource), v', w')
           else (Inl KeyError, v', w'))
      | r \<Rightarrow> r)"

text \<open>The read \<^verbatim>\<open>view[resource]\<close>, resolved by the class of the object.\<close>

definition getitem ::
  "(string \<Rightarrow> real option) \<Rightarrow> view \<Rightarrow> world \<Rightarrow> string \<Rightarrow> (exn + real) \<times> view \<times> world"
where
  "getitem flt v w resource =
     (case cls v of
        ConcurrencyConstraintView \<Rightarrow> constraint_getitem flt v w resource
      | ConcurrencyUsageView \<Rightarrow> usage_getitem flt v w resource
      | PoolResources \<Rightarrow> base_getitem flt v w resource)"

text \<open>\<^verbatim>\<open>ConcurrencyConstraintView._set_constraint\<close>: \<^verbatim>\<open>CalledProcessError\<close> and
  \<^verbatim>\<open>TimeoutExpired\<close> of either command are caught and every other exception leaves
  the function; the second command runs when the first has returned.\<close>

definition set_constraint ::
  "view \<Rightarrow> world \<Rightarrow> string \<Rightarrow> string \<Rightarrow> (exn + unit) \<times> view \<times> world"
where
  "set_constraint v w resource constraint =
     (let reconfig_command =
            pool_command [''condor_config_val'', ''-negotiator'', ''-rset'',
                          resource @ ''_LIMIT = '' @ constraint] (pool v);
          flush_command = pool_command [''condor_reconfig'', ''-negotiator''] (pool v);
          failed = (\<lambda>e w'.
            if e = CalledProcessError \<or> e = TimeoutExpired
            then (Inr (), v, emit Runtime ERROR (ConstraintFailed resource constraint) w')
            else (Inl e, v, w'))
      in case check_call \<lparr>argv = reconfig_command, timeout = Some 10\<rparr> w of
           (Inl e, w1) \<Rightarrow> failed e w1
         | (Inr u, w1) \<Rightarrow>
             (case check_call \<lparr>argv = flush_command, timeout = Some 10\<rparr> w1 of
                (Inl e, w2) \<Rightarrow> failed e w2
              | (Inr u', w2) \<Rightarrow> (Inr (), v\<lparr>valid_date := 0\<rparr>, w2)))"

text \<open>\<^verbatim>\<open>ConcurrencyConstraintView.__setitem__\<close> and \<^verbatim>\<open>__delitem__\<close>\<close>

definition setitem :: "view \<Rightarrow> world \<Rightarrow> string \<Rightarrow> pyfloat \<Rightarrow> (exn + unit) \<times> view \<times> world" where
  "setitem v w key val =
     (case py_int val of
        Inl e \<Rightarrow> (Inl e, v, w)
      | Inr i \<Rightarrow>
          (case set_constraint v w key (str_int i) of
             (Inl e, v', w') \<Rightarrow> (Inl e, v', w')
           | (Inr u, v', w') \<Rightarrow> (Inr (), v'\<lparr>valid_date := 0\<rparr>, w')))"

definition delitem :: "view \<Rightarrow> world \<Rightarrow> string \<Rightarrow> (exn + unit) \<times> view \<times> world" where
  "delitem v w key =
     (case set_constraint v w key [] of
        (Inl e, v', w') \<Rightarrow> (Inl e, v', w')
      | (Inr u, v', w') \<Rightarrow> (Inr (), v'\<lparr>valid_date := 0\<rparr>, w'))"

subsection \<open>Worlds for the worked examples\<close>

text \<open>The world at time \<open>t\<close> with nothing run or logged yet, in which the next commands
  end as the list says, one second each, and every later one with a non-zero exit.\<close>

definition world_at :: "real \<Rightarrow> outcome list \<Rightarrow> world" where
  "world_at t rs =
     \<lparr>clock = t,
      script = (\<lambda>n. if n < length rs then (rs ! n, 1) else (NonZeroExit, 1)),
      issued = [], logged = []\<rparr>"

section \<open>The key/value parser\<close>

text \<open>\<open>strip\<close> removes a run of whitespace at each end, and all of it.\<close>

lemma strip_trims:
  "\<exists>a b. s = a @ strip s @ b \<and> list_all is_space a \<and> list_all is_space b
     \<and> (strip s \<noteq> [] \<longrightarrow> \<not> is_space (hd (strip s)) \<and> \<not> is_space (last (strip s)))"
proof -
  let ?t = "dropWhile is_space s"
  let ?a = "takeWhile is_space s"
  let ?b = "rev (takeWhile is_space (rev ?t))"
  have s: "s = ?a @ ?t"
    by simp
  have "?t = rev (takeWhile is_space (rev ?t) @ dropWhile is_space (rev ?t))"
    by (simp only: takeWhile_dropWhile_id rev_rev_ident)
  then have t: "?t = strip s @ ?b"
    by (simp only: rev_append strip_def)
  have a: "list_all is_space ?a"
    by (simp add: list_all_iff) (meson set_takeWhileD)
  have b: "list_all is_space ?b"
    by (simp add: list_all_iff) (meson set_takeWhileD)
  have e: "\<not> is_space (hd (strip s)) \<and> \<not> is_space (last (strip s))" if n: "strip s \<noteq> []"
  proof -
    from n have d: "dropWhile is_space (rev ?t) \<noteq> []"
      by (simp add: strip_def)
    then have "\<not> is_space (hd (dropWhile is_space (rev ?t)))"
      by (rule hd_dropWhile)
    then have l: "\<not> is_space (last (strip s))"
      using d by (simp add: strip_def last_rev)
    have tn: "?t \<noteq> []"
    proof
      assume "?t = []"
      with t have "strip s @ ?b = []"
        by (simp only:)
      with n show False
        by simp
    qed
    then have "\<not> is_space (hd ?t)"
      by (rule hd_dropWhile)
    moreover have "hd ?t = hd (strip s)"
      using n t by (metis hd_append2)
    ultimately show ?thesis
      using l by simp
  qed
  from s t have "s = ?a @ strip s @ ?b"
    by simp
  with a b e show ?thesis
    by blast
qed

lemma limits_loop_append:
  "limits_loop flt kt (xs @ ys) acc = limits_loop flt kt ys (limits_loop flt kt xs acc)"
  by (induction xs arbitrary: acc) (simp_all add: Let_def split: option.splits)

lemma partition_at_first_separator:
  assumes "CHR ''='' \<notin> set k"
  shows "takeWhile (\<lambda>c. c \<noteq> CHR ''='') (k @ CHR ''='' # v) = k
       \<and> drop 1 (dropWhile (\<lambda>c. c \<noteq> CHR ''='') (k @ CHR ''='' # v)) = v"
proof -
  have "\<And>x. x \<in> set k \<Longrightarrow> x \<noteq> CHR ''=''"
    using assms by auto
  then show ?thesis
    by (simp add: takeWhile_append2 dropWhile_append2)
qed

lemma limits_loop_line:
  assumes "CHR ''='' \<notin> set k"
  shows "limits_loop flt kt ((k @ CHR ''='' # v) # ys) acc =
     (case kt (strip k) of
        None \<Rightarrow> limits_loop flt kt ys acc
      | Some r \<Rightarrow>
          (case flt (strip v) of
             None \<Rightarrow> limits_loop flt kt ys acc
           | Some x \<Rightarrow> limits_loop flt kt ys (AList.update r x acc)))"
  using partition_at_first_separator [OF assms, of v] by (simp add: Let_def)

lemma limits_loop_untouched:
  assumes "\<forall>l \<in> set ys. CHR ''='' \<in> set l \<longrightarrow>
             kt (strip (takeWhile (\<lambda>c. c \<noteq> CHR ''='') l)) \<noteq> Some r
             \<or> flt (strip (drop 1 (dropWhile (\<lambda>c. c \<noteq> CHR ''='') l))) = None"
  shows "map_of (limits_loop flt kt ys acc) r = map_of acc r"
  using assms
proof (induction ys arbitrary: acc)
  case Nil
  then show ?case by simp
next
  case (Cons l ys)
  then show ?case
    by (auto simp add: Let_def update_conv' split: option.splits)
qed

lemma limits_loop_distinct:
  "distinct (map fst acc) \<Longrightarrow> distinct (map fst (limits_loop flt kt ls acc))"
  by (induction ls arbitrary: acc) (simp_all add: Let_def distinct_update split: option.splits)

lemma query_limits_completed:
  assumes "script w (length (issued w)) = (Completed ls, dt)"
  shows "fst (query_limits flt cmd kt w) = Inr (limits_loop flt kt ls [])"
  using assms by (simp add: query_limits_def check_output_def run_process_def)

text \<open>
  C7. The parser reads the lines of a completed query into a dictionary as follows. A
  line without \<^verbatim>\<open>=\<close> is skipped: the result is that of the other lines. A line
  \<open>k=v\<close>, where \<open>k\<close> holds no \<^verbatim>\<open>=\<close>, is split at that first \<^verbatim>\<open>=\<close>; the key
  transform gets \<open>k\<close> and the conversion gets \<open>v\<close>, both stripped of surrounding
  whitespace; when the transform refuses the key or the value is no number the line is
  skipped and the other lines are read as before; otherwise the entry is written over
  what the earlier lines gave, and the later lines are read on top of it. An entry that
  no later line writes again is the one in the result: the last occurrence wins.
\<close>

theorem query_limits_parser:
  "(script w (length (issued w)) = (Completed ls, dt) \<longrightarrow>
      fst (query_limits flt cmd kt w) = Inr (limits_loop flt kt ls []))
   \<and> (CHR ''='' \<notin> set l \<longrightarrow>
        limits_loop flt kt (xs @ l # ys) acc = limits_loop flt kt (xs @ ys) acc)
   \<and> (CHR ''='' \<notin> set k \<longrightarrow>
        limits_loop flt kt (xs @ (k @ CHR ''='' # v) # ys) acc =
          (case kt (strip k) of
             None \<Rightarrow> limits_loop flt kt (xs @ ys) acc
           | Some r \<Rightarrow>
               (case flt (strip v) of
                  None \<Rightarrow> limits_loop flt kt (xs @ ys) acc
                | Some x \<Rightarrow>
                    limits_loop flt kt ys (AList.update r x (limits_loop flt kt xs acc)))))
   \<and> (CHR ''='' \<notin> set k \<and> kt (strip k) = Some r \<and> flt (strip v) = Some x
        \<and> (\<forall>l' \<in> set ys. CHR ''='' \<in> set l' \<longrightarrow>
              kt (strip (takeWhile (\<lambda>c. c \<noteq> CHR ''='') l')) \<noteq> Some r
              \<or> flt (strip (drop 1 (dropWhile (\<lambda>c. c \<noteq> CHR ''='') l'))) = None)
        \<longrightarrow> map_of (limits_loop flt kt (xs @ (k @ CHR ''='' # v) # ys) acc) r = Some x)"
proof (intro conjI impI)
  assume "script w (length (issued w)) = (Completed ls, dt)"
  then show "fst (query_limits flt cmd kt w) = Inr (limits_loop flt kt ls [])"
    by (rule query_limits_completed)
next
  assume "CHR ''='' \<notin> set l"
  then show "limits_loop flt kt (xs @ l # ys) acc = limits_loop flt kt (xs @ ys) acc"
    by (simp add: limits_loop_append)
next
  assume "CHR ''='' \<notin> set k"
  then show "limits_loop flt kt (xs @ (k @ CHR ''='' # v) # ys) acc =
          (case kt (strip k) of
             None \<Rightarrow> limits_loop flt kt (xs @ ys) acc
           | Some r \<Rightarrow>
               (case flt (strip v) of
                  None \<Rightarrow> limits_loop flt kt (xs @ ys) acc
                | Some x \<Rightarrow>
                    limits_loop flt kt ys (AList.update r x (limits_loop flt kt xs acc))))"
    by (simp add: limits_loop_append limits_loop_line del: limits_loop.simps
          split: option.splits)
next
  assume a: "CHR ''='' \<notin> set k \<and> kt (strip k) = Some r \<and> flt (strip v) = Some x
        \<and> (\<forall>l' \<in> set ys. CHR ''='' \<in> set l' \<longrightarrow>
              kt (strip (takeWhile (\<lambda>c. c \<noteq> CHR ''='') l')) \<noteq> Some r
              \<or> flt (strip (drop 1 (dropWhile (\<lambda>c. c \<noteq> CHR ''='') l'))) = None)"
  then have "limits_loop flt kt (xs @ (k @ CHR ''='' # v) # ys) acc =
      limits_loop flt kt ys (AList.update r x (limits_loop flt kt xs acc))"
    by (simp add: limits_loop_append limits_loop_line del: limits_loop.simps)
  moreover have "map_of (limits_loop flt kt ys (AList.update r x (limits_loop flt kt xs acc))) r
      = map_of (AList.update r x (limits_loop flt kt xs acc)) r"
    by (rule limits_loop_untouched) (use a in simp)
  ultimately show "map_of (limits_loop flt kt (xs @ (k @ CHR ''='' # v) # ys) acc) r = Some x"
    by (simp add: update_conv')
qed

theorem query_limits_parser_witness:
  "script (world_at 100 [Completed [''a = 1'', ''no separator'', ''a=2=3'', ''a = 4 '', ''b = 5'']])
       (length (issued (world_at 100 [Completed [''a = 1'', ''no separator'', ''a=2=3'', ''a = 4 '', ''b = 5'']])))
     = (Completed [''a = 1'', ''no separator'', ''a=2=3'', ''a = 4 '', ''b = 5''], 1)
   \<and> fst (query_limits decimal_float [''condor_userprio''] Some
        (world_at 100 [Completed [''a = 1'', ''no separator'', ''a=2=3'', ''a = 4 '', ''b = 5'']]))
     = Inr [(''a'', 4), (''b'', 5)]
   \<and> CHR ''='' \<notin> set ''no separator''
   \<and> CHR ''='' \<notin> set ''a ''
   \<and> decimal_float (strip ''2=3'') = None
   \<and> decimal_float (strip '' 4 '') = Some 4
   \<and> map_of (limits_loop decimal_float Some
        ([''a = 1'', ''no separator'', ''a=2=3''] @ (''a '' @ CHR ''='' # '' 4 '') # [''b = 5'']) []) ''a''
     = Some 4"
proof -
  let ?ls = "[''a = 1'', ''no separator'', ''a=2=3'', ''a = 4 '', ''b = 5'']"
  have s: "script (world_at 100 [Completed ?ls]) (length (issued (world_at 100 [Completed ?ls])))
      = (Completed ?ls, 1)"
    by (simp add: world_at_def)
  have e: "limits_loop decimal_float Some ?ls [] = [(''a'', 4), (''b'', 5)]"
    by code_simp
  have n: "CHR ''='' \<notin> set ''no separator''" "CHR ''='' \<notin> set ''a ''"
    by simp_all
  have f: "decimal_float (strip ''2=3'') = None" "decimal_float (strip '' 4 '') = Some 4"
    by code_simp+
  have k: "Some (strip ''a '') = Some ''a''"
    by code_simp
  have o: "\<forall>l' \<in> set [''b = 5'']. CHR ''='' \<in> set l' \<longrightarrow>
              Some (strip (takeWhile (\<lambda>c. c \<noteq> CHR ''='') l')) \<noteq> Some ''a''
              \<or> decimal_float (strip (drop 1 (dropWhile (\<lambda>c. c \<noteq> CHR ''='') l'))) = None"
    by code_simp
  note t = query_limits_parser [of "world_at 100 [Completed ?ls]" ?ls 1 decimal_float
      "[''condor_userprio'']" Some "''no separator''" "[''a = 1'', ''no separator'', ''a=2=3'']"
      "[''b = 5'']" "[]" "''a ''" "'' 4 ''" "''a''" 4]
  from t s e have "fst (query_limits decimal_float [''condor_userprio''] Some
        (world_at 100 [Completed ?ls])) = Inr [(''a'', 4), (''b'', 5)]"
    by simp
  moreover from t n k f o have "map_of (limits_loop decimal_float Some
        ([''a = 1'', ''no separator'', ''a=2=3''] @ (''a '' @ CHR ''='' # '' 4 '') # [''b = 5'']) []) ''a''
     = Some 4"
    by blast
  ultimately show ?thesis
    using s n f by blast
qed

section \<open>The key transforms of the Limit View and the Usage View\<close>

lemma constraint_key_to_resource_iff:
  "constraint_key_to_resource key = Some r \<longleftrightarrow> (\<exists>s. key = r @ s \<and> lower s = ''_limit'')"
proof
  assume a: "constraint_key_to_resource key = Some r"
  define n where "n = length key - 6"
  from a have l: "drop n (lower key) = ''_limit''" and r: "r = take n key"
    by (auto simp: constraint_key_to_resource_def n_def split: if_splits)
  have "key = r @ drop n key"
    by (simp add: r)
  moreover have "lower (drop n key) = ''_limit''"
    using l by (simp add: lower_def drop_map)
  ultimately show "\<exists>s. key = r @ s \<and> lower s = ''_limit''"
    by blast
next
  assume "\<exists>s. key = r @ s \<and> lower s = ''_limit''"
  then obtain s where k: "key = r @ s" and s: "lower s = ''_limit''"
    by blast
  from s have "length (lower s) = 6"
    by simp
  then have "length s = 6"
    by (simp add: lower_def)
  with s show "constraint_key_to_resource key = Some r"
    by (simp add: constraint_key_to_resource_def k lower_def)
qed

lemma usage_key_to_resource_iff:
  "usage_key_to_resource key = Some r \<longleftrightarrow> key = ''ConcurrencyLimit_'' @ r"
proof
  assume a: "usage_key_to_resource key = Some r"
  then have t: "take 17 key = ''ConcurrencyLimit_''" and r: "r = drop 17 key"
    by (auto simp: usage_key_to_resource_def split: if_splits)
  have "key = take 17 key @ drop 17 key"
    by simp
  with t r show "key = ''ConcurrencyLimit_'' @ r"
    by metis
next
  assume "key = ''ConcurrencyLimit_'' @ r"
  then show "usage_key_to_resource key = Some r"
    by (simp add: usage_key_to_resource_def)
qed

lemma limits_loop_refused_key:
  assumes "CHR ''='' \<notin> set k" and "kt (strip k) = None"
  shows "limits_loop flt kt (xs @ (k @ CHR ''='' # v) # ys) acc = limits_loop flt kt (xs @ ys) acc"
  using assms by (simp add: limits_loop_append limits_loop_line del: limits_loop.simps)

lemma constraint_lines_example:
  "limits_loop decimal_float constraint_key_to_resource [''GPU_LIMIT = 7''] [] = [(''GPU'', 7)]"
  "limits_loop decimal_float constraint_key_to_resource [''OTHER_ATTR = x''] [] = []"
  by code_simp+

lemma usage_lines_example:
  "limits_loop decimal_float usage_key_to_resource [''ConcurrencyLimit_GPU_typeA = 3''] []
     = [(''GPU_typeA'', 3)]"
  by code_simp

text \<open>
  C5 (as amended). The key transform of the Limit View accepts exactly the keys that end
  in six characters which lower to \<^verbatim>\<open>_limit\<close>, and returns the key without them, in
  the case it was written in; a line whose key it refuses is skipped. The line
  \<^verbatim>\<open>GPU_LIMIT = 7\<close> gives the resource \<^verbatim>\<open>GPU\<close> the value 7, and the line
  \<^verbatim>\<open>OTHER_ATTR = x\<close> gives no entry.
\<close>

theorem constraint_key_transform:
  "(constraint_key_to_resource key = Some r \<longleftrightarrow> (\<exists>s. key = r @ s \<and> lower s = ''_limit''))
   \<and> (CHR ''='' \<notin> set k \<and> constraint_key_to_resource (strip k) = None \<longrightarrow>
        limits_loop flt constraint_key_to_resource (xs @ (k @ CHR ''='' # v) # ys) acc
          = limits_loop flt constraint_key_to_resource (xs @ ys) acc)
   \<and> limits_loop decimal_float constraint_key_to_resource [''GPU_LIMIT = 7''] [] = [(''GPU'', 7)]
   \<and> limits_loop decimal_float constraint_key_to_resource [''OTHER_ATTR = x''] [] = []"
  using constraint_key_to_resource_iff [of key r]
    limits_loop_refused_key [of k constraint_key_to_resource flt xs v ys acc]
    constraint_lines_example
  by blast

theorem constraint_key_transform_witness:
  "constraint_key_to_resource ''gpu_Limit'' = Some ''gpu''
   \<and> (\<exists>s. ''gpu_Limit'' = ''gpu'' @ s \<and> lower s = ''_limit'')
   \<and> CHR ''='' \<notin> set ''OTHER_ATTR ''
   \<and> constraint_key_to_resource (strip ''OTHER_ATTR '') = None
   \<and> limits_loop decimal_float constraint_key_to_resource
        ([''GPU_LIMIT = 7''] @ (''OTHER_ATTR '' @ CHR ''='' # '' 8'') # [''x_limit = 9'']) []
      = limits_loop decimal_float constraint_key_to_resource
        ([''GPU_LIMIT = 7''] @ [''x_limit = 9'']) []"
proof -
  have a: "constraint_key_to_resource ''gpu_Limit'' = Some ''gpu''"
    by code_simp
  have b: "CHR ''='' \<notin> set ''OTHER_ATTR ''"
    by simp
  have c: "constraint_key_to_resource (strip ''OTHER_ATTR '') = None"
    by code_simp
  show ?thesis
    using a b c
      constraint_key_transform [of "''gpu_Limit''" "''gpu''" "''OTHER_ATTR ''" decimal_float
        "[''GPU_LIMIT = 7'']" "'' 8''" "[''x_limit = 9'']" "[]"]
    by blast
qed

theorem limit_parser_keeps_case_counterexample:
  "map_of (limits_loop decimal_float constraint_key_to_resource [''GPU_LIMIT = 7''] []) ''gpu''
     = None"
  by code_simp

section \<open>Reading a view whose refresh has not raised\<close>

lemma base_getitem_refreshed:
  assumes "try_refresh flt v w = (Inr (), v', w')"
  shows "base_getitem flt v w item = (subscript (data v') item, v', w')"
  using assms by (simp add: base_getitem_def)

lemma usage_getitem_refreshed:
  assumes "try_refresh flt v w = (Inr (), v', w')" and "data v' = Some d"
  shows "usage_getitem flt v w resource =
     (case map_of d (replace_chr (CHR ''.'') (CHR ''_'') resource) of
        Some x \<Rightarrow> (Inr x, v', w')
      | None \<Rightarrow>
          (if CHR ''.'' \<in> set resource
           then (subscript (Some d) (takeWhile (\<lambda>c. c \<noteq> CHR ''.'') resource), v', w')
           else (Inl KeyError, v', w')))"
  using assms
  by (simp add: usage_getitem_def base_getitem_refreshed subscript_def split: option.splits)

lemma constraint_getitem_refreshed:
  assumes "try_refresh flt v w = (Inr (), v', w')" and "data v' = Some d"
  shows "constraint_getitem flt v w resource =
     (case map_of d resource of
        Some x \<Rightarrow> (Inr x, v', w')
      | None \<Rightarrow>
          (if CHR ''.'' \<in> set resource
           then (subscript (Some d) (takeWhile (\<lambda>c. c \<noteq> CHR ''.'') resource), v', w')
           else (Inl KeyError, v', w')))"
  using assms
  by (simp add: constraint_getitem_def base_getitem_refreshed subscript_def split: option.splits)

lemma try_refresh_valid:
  "\<not> valid_date v < clock w \<Longrightarrow> try_refresh flt v w = (Inr (), v, w)"
  by (simp add: try_refresh_def)

text \<open>
  C6. A read of the Usage View, once the refresh has not raised and the cache is the
  dictionary \<open>d\<close>, looks up the resource with every \<^verbatim>\<open>.\<close> replaced by \<^verbatim>\<open>_\<close> and
  returns that entry when \<open>d\<close> has it; only when it has not does it go on to the parent
  group or raise \<^verbatim>\<open>KeyError\<close>. The key transform accepts exactly the keys that start
  with \<^verbatim>\<open>ConcurrencyLimit_\<close> and returns the rest. The line
  \<^verbatim>\<open>ConcurrencyLimit_GPU_typeA = 3\<close> gives the resource \<^verbatim>\<open>GPU_typeA\<close> the value 3.
\<close>

theorem usage_view_keys:
  "(try_refresh flt v w = (Inr (), v', w') \<and> data v' = Some d \<longrightarrow>
      usage_getitem flt v w resource =
        (case map_of d (replace_chr (CHR ''.'') (CHR ''_'') resource) of
           Some x \<Rightarrow> (Inr x, v', w')
         | None \<Rightarrow>
             (if CHR ''.'' \<in> set resource
              then (subscript (Some d) (takeWhile (\<lambda>c. c \<noteq> CHR ''.'') resource), v', w')
              else (Inl KeyError, v', w'))))
   \<and> (usage_key_to_resource key = Some r \<longleftrightarrow> key = ''ConcurrencyLimit_'' @ r)
   \<and> limits_loop decimal_float usage_key_to_resource [''ConcurrencyLimit_GPU_typeA = 3''] []
        = [(''GPU_typeA'', 3)]"
  using usage_getitem_refreshed [of flt v w v' w' d resource]
    usage_key_to_resource_iff [of key r] usage_lines_example
  by blast

theorem usage_view_keys_witness:
  "try_refresh decimal_float
      \<lparr>cls = ConcurrencyUsageView, pool = None, max_age = 10, valid_date = 105,
       data = Some [(''gpu'', 1), (''gpu_typeA'', 2), (''gpu.typeA'', 3)]\<rparr> (world_at 100 [])
     = (Inr (),
        \<lparr>cls = ConcurrencyUsageView, pool = None, max_age = 10, valid_date = 105,
         data = Some [(''gpu'', 1), (''gpu_typeA'', 2), (''gpu.typeA'', 3)]\<rparr>, world_at 100 [])
   \<and> fst (usage_getitem decimal_float
      \<lparr>cls = ConcurrencyUsageView, pool = None, max_age = 10, valid_date = 105,
       data = Some [(''gpu'', 1), (''gpu_typeA'', 2), (''gpu.typeA'', 3)]\<rparr> (world_at 100 [])
      ''gpu.typeA'') = Inr 2
   \<and> usage_key_to_resource ''ConcurrencyLimit_GPU_typeA'' = Some ''GPU_typeA''"
proof -
  let ?v = "\<lparr>cls = ConcurrencyUsageView, pool = None, max_age = 10, valid_date = 105,
       data = Some [(''gpu'', 1), (''gpu_typeA'', 2), (''gpu.typeA'', 3)]\<rparr>"
  let ?w = "world_at 100 []"
  have a: "try_refresh decimal_float ?v ?w = (Inr (), ?v, ?w)"
    by (rule try_refresh_valid) (simp add: world_at_def)
  have b: "map_of [(''gpu'', 1::real), (''gpu_typeA'', 2), (''gpu.typeA'', 3)]
             (replace_chr (CHR ''.'') (CHR ''_'') ''gpu.typeA'') = Some 2"
    by code_simp
  note t = usage_view_keys [of decimal_float ?v ?w ?v ?w
      "[(''gpu'', 1), (''gpu_typeA'', 2), (''gpu.typeA'', 3)]" "''gpu.typeA''"
      "''ConcurrencyLimit_GPU_typeA''" "''GPU_typeA''"]
  from t a b have "fst (usage_getitem decimal_float ?v ?w ''gpu.typeA'') = Inr 2"
    by simp
  moreover from t have "usage_key_to_resource ''ConcurrencyLimit_GPU_typeA'' = Some ''GPU_typeA''"
    by simp
  ultimately show ?thesis
    using a by blast
qed

text \<open>
  C4. Let \<open>k\<close> be the dotted key \<open>g.s\<close>, where \<open>g\<close> holds no dot, and let the cache be
  the dictionary \<open>d\<close> once the refresh has not raised. On the Limit View, a read of \<open>k\<close>
  that does not find \<open>k\<close> in \<open>d\<close> returns the entry of the group \<open>g\<close>, and raises
  \<^verbatim>\<open>KeyError\<close> when \<open>d\<close> has no entry for \<open>g\<close> either. The Usage View does the same
  when it does not find its exact key, \<open>k\<close> with its dots replaced.
\<close>

theorem parent_group_fallback:
  "CHR ''.'' \<notin> set g \<and> try_refresh flt v w = (Inr (), v', w') \<and> data v' = Some d \<longrightarrow>
     (map_of d (g @ CHR ''.'' # s) = None \<longrightarrow>
        constraint_getitem flt v w (g @ CHR ''.'' # s) =
          ((case map_of d g of Some x \<Rightarrow> Inr x | None \<Rightarrow> Inl KeyError), v', w'))
   \<and> (map_of d (replace_chr (CHR ''.'') (CHR ''_'') (g @ CHR ''.'' # s)) = None \<longrightarrow>
        usage_getitem flt v w (g @ CHR ''.'' # s) =
          ((case map_of d g of Some x \<Rightarrow> Inr x | None \<Rightarrow> Inl KeyError), v', w'))"
proof (intro impI)
  let ?k = "g @ CHR ''.'' # s"
  assume a: "CHR ''.'' \<notin> set g \<and> try_refresh flt v w = (Inr (), v', w') \<and> data v' = Some d"
  then have "\<And>x. x \<in> set g \<Longrightarrow> x \<noteq> CHR ''.''"
    by auto
  then have g: "takeWhile (\<lambda>c. c \<noteq> CHR ''.'') ?k = g"
    by (simp add: takeWhile_append2)
  have dot: "CHR ''.'' \<in> set ?k"
    by simp
  from a have r: "try_refresh flt v w = (Inr (), v', w')" and d: "data v' = Some d"
    by simp_all
  have c: "map_of d ?k = None \<longrightarrow>
        constraint_getitem flt v w ?k =
          ((case map_of d g of Some x \<Rightarrow> Inr x | None \<Rightarrow> Inl KeyError), v', w')"
    using constraint_getitem_refreshed [OF r d, of ?k] g dot
    by (simp add: subscript_def split: option.splits)
  have u: "map_of d (replace_chr (CHR ''.'') (CHR ''_'') ?k) = None \<longrightarrow>
        usage_getitem flt v w ?k =
          ((case map_of d g of Some x \<Rightarrow> Inr x | None \<Rightarrow> Inl KeyError), v', w')"
    using usage_getitem_refreshed [OF r d, of ?k] g dot
    by (simp add: subscript_def split: option.splits)
  from c u show "(map_of d ?k = None \<longrightarrow>
        constraint_getitem flt v w ?k =
          ((case map_of d g of Some x \<Rightarrow> Inr x | None \<Rightarrow> Inl KeyError), v', w'))
   \<and> (map_of d (replace_chr (CHR ''.'') (CHR ''_'') ?k) = None \<longrightarrow>
        usage_getitem flt v w ?k =
          ((case map_of d g of Some x \<Rightarrow> Inr x | None \<Rightarrow> Inl KeyError), v', w'))"
    by (rule conjI)
qed

theorem parent_group_fallback_witness:
  "CHR ''.'' \<notin> set ''gpu''
   \<and> try_refresh decimal_float
        \<lparr>cls = ConcurrencyConstraintView, pool = None, max_age = 10, valid_date = 105,
         data = Some [(''gpu'', 5)]\<rparr> (world_at 100 [])
       = (Inr (),
          \<lparr>cls = ConcurrencyConstraintView, pool = None, max_age = 10, valid_date = 105,
           data = Some [(''gpu'', 5)]\<rparr>, world_at 100 [])
   \<and> map_of [(''gpu'', 5::real)] ''gpu.typeA'' = None
   \<and> fst (constraint_getitem decimal_float
        \<lparr>cls = ConcurrencyConstraintView, pool = None, max_age = 10, valid_date = 105,
         data = Some [(''gpu'', 5)]\<rparr> (world_at 100 []) ''gpu.typeA'') = Inr 5
   \<and> fst (usage_getitem decimal_float
        \<lparr>cls = ConcurrencyUsageView, pool = None, max_age = 10, valid_date = 105,
         data = Some [(''gpu'', 5)]\<rparr> (world_at 100 []) ''gpu.typeA'') = Inr 5"
proof -
  let ?v = "\<lparr>cls = ConcurrencyConstraintView, pool = None, max_age = 10, valid_date = 105,
         data = Some [(''gpu'', 5)]\<rparr>"
  let ?u = "\<lparr>cls = ConcurrencyUsageView, pool = None, max_age = 10, valid_date = 105,
         data = Some [(''gpu'', 5)]\<rparr>"
  let ?w = "world_at 100 []"
  have a: "try_refresh decimal_float ?v ?w = (Inr (), ?v, ?w)"
    by (rule try_refresh_valid) (simp add: world_at_def)
  have a': "try_refresh decimal_float ?u ?w = (Inr (), ?u, ?w)"
    by (rule try_refresh_valid) (simp add: world_at_def)
  have b: "CHR ''.'' \<notin> set ''gpu''"
    by simp
  have c: "map_of [(''gpu'', 5::real)] ''gpu.typeA'' = None"
    "map_of [(''gpu'', 5::real)] (replace_chr (CHR ''.'') (CHR ''_'') ''gpu.typeA'') = None"
    "map_of [(''gpu'', 5::real)] ''gpu'' = Some 5"
    by code_simp+
  have "fst (constraint_getitem decimal_float ?v ?w ''gpu.typeA'') = Inr 5"
    using parent_group_fallback [of "''gpu''" decimal_float ?v ?w ?v ?w "[(''gpu'', 5)]" "''typeA''"]
      a b c
    by simp
  moreover have "fst (usage_getitem decimal_float ?u ?w ''gpu.typeA'') = Inr 5"
    using parent_group_fallback [of "''gpu''" decimal_float ?u ?w ?u ?w "[(''gpu'', 5)]" "''typeA''"]
      a' b c
    by simp
  ultimately show ?thesis
    using a b c by blast
qed

section \<open>The Capacity View\<close>

lemma machines_length:
  "distinct ms \<Longrightarrow> distinct (fold List.insert hs ms)
     \<and> set (fold List.insert hs ms) = set hs \<union> set ms"
  by (induction hs arbitrary: ms) auto

lemma machines_loop_records:
  assumes "list_all2 (\<lambda>l (c, m, k, h). \<exists>cs ms ks. split_ws l = [cs, ms, ks, h]
              \<and> flt cs = Some c \<and> flt ms = Some m \<and> flt ks = Some k) ls recs"
  shows "machines_loop flt ls
           ([(''cpus'', a), (''memory'', b), (''disk'', e), (''machines'', z)], hs) =
         Inr ([(''cpus'', a + sum_list (map (\<lambda>(c, m, k, h). c) recs)),
               (''memory'', b + sum_list (map (\<lambda>(c, m, k, h). m) recs)),
               (''disk'', e + sum_list (map (\<lambda>(c, m, k, h). k) recs)),
               (''machines'', z)],
              fold List.insert (map (\<lambda>(c, m, k, h). h) recs) hs)"
  using assms
proof (induction ls recs arbitrary: a b e hs rule: list_all2_induct)
  case Nil
  then show ?case by simp
next
  case (Cons l ls r recs)
  obtain c m k h where r: "r = (c, m, k, h)"
    by (cases r) auto
  from Cons.hyps(1) r obtain cs ms ks where
    "split_ws l = [cs, ms, ks, h]" "flt cs = Some c" "flt ms = Some m" "flt ks = Some k"
    by auto
  then show ?case
    by (simp add: r Cons.IH add.assoc)
qed

lemma try_refresh_replaces:
  assumes "valid_date v < clock w"
    and "query_data flt v (emit Runtime DEBUG (Querying (pool v)) w) = (Inr d, w')"
  shows "try_refresh flt v w =
     (Inr (), v\<lparr>data := d, valid_date := max_age v + clock w'\<rparr>,
      emit Monitor DEBUG (QueryingResult (pool v) d) w')"
  using assms by (simp add: try_refresh_def)

text \<open>
  C8. When the query of the Capacity View completes and every line of its output is a
  record, that is four fields of which the first three convert to the numbers \<open>c\<close>,
  \<open>m\<close> and \<open>k\<close> and the fourth is the host \<open>h\<close>, the refresh stores the dictionary
  whose \<^verbatim>\<open>cpus\<close>, \<^verbatim>\<open>memory\<close> and \<^verbatim>\<open>disk\<close> are the sums of the \<open>c\<close>, the \<open>m\<close> and
  the \<open>k\<close> over all records and whose \<^verbatim>\<open>machines\<close> is the number of distinct hosts.
\<close>

theorem pool_resources_aggregate:
  assumes "cls v = PoolResources" and "valid_date v < clock w"
    and "script w (length (issued w)) = (Completed ls, dt)"
    and "list_all2 (\<lambda>l (c, m, k, h). \<exists>cs ms ks. split_ws l = [cs, ms, ks, h]
              \<and> flt cs = Some c \<and> flt ms = Some m \<and> flt ks = Some k) ls recs"
  shows "data (fst (snd (try_refresh flt v w))) =
     Some [(''cpus'', sum_list (map (\<lambda>(c, m, k, h). c) recs)),
           (''memory'', sum_list (map (\<lambda>(c, m, k, h). m) recs)),
           (''disk'', sum_list (map (\<lambda>(c, m, k, h). k) recs)),
           (''machines'', real (card (set (map (\<lambda>(c, m, k, h). h) recs))))]"
proof -
  let ?hs = "fold List.insert (map (\<lambda>(c, m, k, h). h) recs) []"
  have "distinct ?hs \<and> set ?hs = set (map (\<lambda>(c, m, k, h). h) recs) \<union> set []"
    by (rule machines_length) simp
  then have n: "length ?hs = card (set (map (\<lambda>(c, m, k, h). h) recs))"
    using distinct_card [of ?hs] by simp
  let ?d = "Some [(''cpus'', sum_list (map (\<lambda>(c, m, k, h). c) recs)),
           (''memory'', sum_list (map (\<lambda>(c, m, k, h). m) recs)),
           (''disk'', sum_list (map (\<lambda>(c, m, k, h). k) recs)),
           (''machines'', real (card (set (map (\<lambda>(c, m, k, h). h) recs))))]"
  have "fst (query_data flt v (emit Runtime DEBUG (Querying (pool v)) w)) = Inr ?d"
    using assms(1,3) machines_loop_records [OF assms(4), of 0 0 0 0 "[]"] n
    by (simp add: query_data_def resources_query_data_def check_output_def run_process_def
          emit_def)
  then obtain w' where
    "query_data flt v (emit Runtime DEBUG (Querying (pool v)) w) = (Inr ?d, w')"
    by (cases "query_data flt v (emit Runtime DEBUG (Querying (pool v)) w)") auto
  from try_refresh_replaces [OF assms(2) this] show ?thesis
    by simp
qed

theorem pool_resources_aggregate_witness:
  "data (fst (snd (try_refresh decimal_float (init PoolResources None 30)
      (world_at 100 [Completed [''4 8192 100000 host1'', ''4 8192 100000 host1'']])))) =
     Some [(''cpus'', 8), (''memory'', 16384), (''disk'', 200000), (''machines'', 1)]"
proof -
  let ?ls = "[''4 8192 100000 host1'', ''4 8192 100000 host1'']"
  let ?recs = "[(4, 8192, 100000, ''host1''), (4::real, 8192::real, 100000::real, ''host1'')]"
  have a: "cls (init PoolResources None 30) = PoolResources"
    "valid_date (init PoolResources None 30) < clock (world_at 100 [Completed ?ls])"
    "script (world_at 100 [Completed ?ls]) (length (issued (world_at 100 [Completed ?ls])))
       = (Completed ?ls, 1)"
    by (simp_all add: init_def world_at_def)
  have s: "split_ws ''4 8192 100000 host1'' = [''4'', ''8192'', ''100000'', ''host1'']"
    by code_simp
  have f: "decimal_float ''4'' = Some 4" "decimal_float ''8192'' = Some 8192"
    "decimal_float ''100000'' = Some 100000"
    by code_simp+
  have b: "list_all2 (\<lambda>l (c, m, k, h). \<exists>cs ms ks. split_ws l = [cs, ms, ks, h]
              \<and> decimal_float cs = Some c \<and> decimal_float ms = Some m
              \<and> decimal_float ks = Some k) ?ls ?recs"
  proof -
    have "\<exists>cs ms ks. split_ws ''4 8192 100000 host1'' = [cs, ms, ks, ''host1'']
              \<and> decimal_float cs = Some 4 \<and> decimal_float ms = Some 8192
              \<and> decimal_float ks = Some 100000"
      using s f by blast
    then show ?thesis
      by (simp only: list_all2_Cons list_all2_Nil split_conv simp_thms)
  qed
  have c: "card (set (map (\<lambda>(c, m, k, h). h) ?recs)) = 1"
    by simp
  from pool_resources_aggregate [OF a b] c show ?thesis
    by simp
qed

lemma machines_loop_wrong_field_count:
  assumes "length (split_ws l) \<noteq> 4"
  shows "machines_loop flt (xs @ l # ys) acc = machines_loop flt (xs @ ys) acc"
proof (induction xs arbitrary: acc)
  case Nil
  obtain d ms where acc: "acc = (d, ms)"
    by (cases acc) auto
  have "\<And>a b c e. split_ws l \<noteq> [a, b, c, e]"
    using assms by auto
  then show ?case
    by (cases "split_ws l" rule: remdups_adj.cases) (auto simp: acc split: list.splits)
next
  case (Cons x xs)
  obtain d ms where acc: "acc = (d, ms)"
    by (cases acc) auto
  show ?case
    by (simp add: acc Cons.IH cong: list.case_cong option.case_cong)
qed

text \<open>
  C9. A record whose first field is not a number is not skipped: with the output
  \<^verbatim>\<open>undefined 8192 100000 host1\<close> and \<^verbatim>\<open>4 8192 100000 host2\<close> the read of the
  Capacity View raises \<^verbatim>\<open>ValueError\<close> and the cache keeps no part of the second
  record.
\<close>

theorem pool_resources_unparseable_field:
  "fst (getitem decimal_float (init PoolResources None 30)
      (world_at 100 [Completed [''undefined 8192 100000 host1'', ''4 8192 100000 host2'']])
      ''cpus'') = Inl ValueError
   \<and> data (fst (snd (getitem decimal_float (init PoolResources None 30)
      (world_at 100 [Completed [''undefined 8192 100000 host1'', ''4 8192 100000 host2'']])
      ''cpus''))) = Some []"
  by code_simp

section \<open>Refreshing the cache\<close>

lemma run_process_world:
  "issued (snd (run_process cmd w)) = issued w @ [cmd]
   \<and> logged (snd (run_process cmd w)) = logged w
   \<and> script (snd (run_process cmd w)) = script w
   \<and> clock (snd (run_process cmd w)) = clock w + snd (script w (length (issued w)))"
  by (simp add: run_process_def split: prod.splits)

lemma check_output_world:
  "issued (snd (check_output cmd w)) = issued w @ [cmd]
   \<and> logged (snd (check_output cmd w)) = logged w"
  using run_process_world [of cmd w]
  by (cases "run_process cmd w") (simp add: check_output_def split: outcome.splits)

lemma check_call_world:
  "issued (snd (check_call cmd w)) = issued w @ [cmd]
   \<and> logged (snd (check_call cmd w)) = logged w
   \<and> script (snd (check_call cmd w)) = script w"
  using run_process_world [of cmd w]
  by (cases "run_process cmd w") (simp add: check_call_def split: outcome.splits)

lemma check_call_result:
  "fst (check_call cmd w) =
     (case fst (script w (length (issued w))) of
        Completed ls \<Rightarrow> Inr ()
      | NonZeroExit \<Rightarrow> Inl CalledProcessError
      | TimedOut \<Rightarrow> Inl TimeoutExpired
      | NotStarted \<Rightarrow> Inl OSError)"
  by (simp add: check_call_def run_process_def split: prod.splits outcome.splits)

lemma query_limits_world:
  "issued (snd (query_limits flt c kt w)) = issued w @ [\<lparr>argv = c, timeout = Some 10\<rparr>]
   \<and> logged (snd (query_limits flt c kt w)) = logged w"
  using check_output_world [of "\<lparr>argv = c, timeout = Some 10\<rparr>" w]
  by (cases "check_output \<lparr>argv = c, timeout = Some 10\<rparr> w")
     (simp add: query_limits_def split: sum.splits)

lemma query_data_world:
  "length (issued (snd (query_data flt v w))) = Suc (length (issued w))
   \<and> logged (snd (query_data flt v w)) = logged w"
proof (cases "cls v")
  case ConcurrencyConstraintView
  let ?c = "pool_command [''condor_config_val'', ''-negotiator'', ''-dump'', ''LIMIT''] (pool v)"
  show ?thesis
    using query_limits_world [of flt ?c constraint_key_to_resource w] ConcurrencyConstraintView
    by (cases "query_limits flt ?c constraint_key_to_resource w")
       (simp add: query_data_def constraint_query_data_def split: sum.splits exn.splits)
next
  case ConcurrencyUsageView
  let ?c = "pool_command [''condor_userprio'', ''-negotiator'', ''-long''] (pool v)"
  show ?thesis
    using query_limits_world [of flt ?c usage_key_to_resource w] ConcurrencyUsageView
    by (cases "query_limits flt ?c usage_key_to_resource w")
       (simp add: query_data_def usage_query_data_def split: sum.splits exn.splits)
next
  case PoolResources
  let ?c = "\<lparr>argv = pool_command
                [''condor_status'', ''-startd'', ''-constraint'',
                 ''SlotType!='' @ [CHR 0x22] @ ''Dynamic'' @ [CHR 0x22] @ '' && State=!=''
                   @ [CHR 0x22] @ ''Owner'' @ [CHR 0x22],
                 ''-af'', ''TotalSlotCpus'', ''TotalSlotMemory'', ''TotalSlotDisk'', ''Machine'']
                (pool v),
              timeout = None\<rparr>"
  show ?thesis
    using check_output_world [of ?c w] PoolResources
    by (cases "check_output ?c w")
       (simp add: query_data_def resources_query_data_def
          split: sum.splits exn.splits prod.splits)
qed

lemma try_refresh_issued:
  "length (issued (snd (snd (try_refresh flt v w)))) =
     (if valid_date v < clock w then Suc (length (issued w)) else length (issued w))"
  using query_data_world [of flt v "emit Runtime DEBUG (Querying (pool v)) w"]
  by (cases "query_data flt v (emit Runtime DEBUG (Querying (pool v)) w)")
     (simp add: try_refresh_def emit_def split: sum.splits exn.splits)

lemma reads_after_try_refresh:
  "snd (base_getitem flt v w k) = snd (try_refresh flt v w)"
  "snd (constraint_getitem flt v w k) = snd (try_refresh flt v w)"
  "snd (usage_getitem flt v w k) = snd (try_refresh flt v w)"
  "snd (view_len flt v w) = snd (try_refresh flt v w)"
  "snd (view_iter flt v w) = snd (try_refresh flt v w)"
  by (cases "try_refresh flt v w";
      simp add: base_getitem_def constraint_getitem_def usage_getitem_def view_len_def
        view_iter_def split: sum.splits exn.splits prod.splits)+

lemma getitem_after_try_refresh:
  "snd (getitem flt v w k) = snd (try_refresh flt v w)"
  by (cases "cls v") (simp_all add: getitem_def reads_after_try_refresh)

text \<open>What a failed query does on the Limit View and the Usage View: a non-zero exit is
  logged and leaves the view as it was; a timeout is raised to the reader.\<close>

lemma query_limits_failed:
  "fst (script w (length (issued w))) = NonZeroExit \<Longrightarrow>
     fst (query_limits flt c kt w) = Inl CalledProcessError"
  "fst (script w (length (issued w))) = TimedOut \<Longrightarrow>
     fst (query_limits flt c kt w) = Inl TimeoutExpired"
  by (cases "script w (length (issued w))";
      simp add: query_limits_def check_output_def run_process_def)+

lemma limits_query_data_result:
  "fst (constraint_query_data flt v w) =
     (case fst (query_limits flt
                  (pool_command [''condor_config_val'', ''-negotiator'', ''-dump'', ''LIMIT'']
                     (pool v)) constraint_key_to_resource w) of
        Inl e \<Rightarrow> Inl (if e = CalledProcessError then QueryError else e)
      | Inr d \<Rightarrow> Inr (Some d))"
  "fst (usage_query_data flt v w) =
     (case fst (query_limits flt
                  (pool_command [''condor_userprio'', ''-negotiator'', ''-long''] (pool v))
                  usage_key_to_resource w) of
        Inl e \<Rightarrow> Inl (if e = CalledProcessError then QueryError else e)
      | Inr d \<Rightarrow> Inr (Some d))"
proof -
  let ?c = "pool_command [''condor_config_val'', ''-negotiator'', ''-dump'', ''LIMIT''] (pool v)"
  let ?u = "pool_command [''condor_userprio'', ''-negotiator'', ''-long''] (pool v)"
  obtain r w' where q: "query_limits flt ?c constraint_key_to_resource w = (r, w')"
    by (cases "query_limits flt ?c constraint_key_to_resource w") auto
  show "fst (constraint_query_data flt v w) =
     (case fst (query_limits flt ?c constraint_key_to_resource w) of
        Inl e \<Rightarrow> Inl (if e = CalledProcessError then QueryError else e)
      | Inr d \<Rightarrow> Inr (Some d))"
    by (cases r) (auto simp: constraint_query_data_def q split: exn.splits)
  obtain r' w'' where q': "query_limits flt ?u usage_key_to_resource w = (r', w'')"
    by (cases "query_limits flt ?u usage_key_to_resource w") auto
  show "fst (usage_query_data flt v w) =
     (case fst (query_limits flt ?u usage_key_to_resource w) of
        Inl e \<Rightarrow> Inl (if e = CalledProcessError then QueryError else e)
      | Inr d \<Rightarrow> Inr (Some d))"
    by (cases r') (auto simp: usage_query_data_def q' split: exn.splits)
qed

lemma query_data_failed:
  assumes "cls v \<noteq> PoolResources"
  shows "fst (script w (length (issued w))) = NonZeroExit \<Longrightarrow>
           fst (query_data flt v w) = Inl QueryError"
    and "fst (script w (length (issued w))) = TimedOut \<Longrightarrow>
           fst (query_data flt v w) = Inl TimeoutExpired"
  using assms
  by (cases "cls v"; simp add: query_data_def limits_query_data_result query_limits_failed)+

lemma try_refresh_non_zero_exit:
  assumes "cls v \<noteq> PoolResources" and "valid_date v < clock w"
    and "fst (script w (length (issued w))) = NonZeroExit"
  shows "fst (try_refresh flt v w) = Inr ()
     \<and> fst (snd (try_refresh flt v w)) = v
     \<and> logged (snd (snd (try_refresh flt v w))) =
         logged w @ [(Runtime, DEBUG, Querying (pool v)), (Runtime, ERROR, QueryingFailed (pool v))]"
proof -
  let ?w = "emit Runtime DEBUG (Querying (pool v)) w"
  have s: "fst (script ?w (length (issued ?w))) = NonZeroExit"
    using assms(3) by (simp add: emit_def)
  have l: "logged (snd (query_data flt v ?w)) = logged w @ [(Runtime, DEBUG, Querying (pool v))]"
    using query_data_world [of flt v ?w] by (simp add: emit_def)
  have "fst (query_data flt v ?w) = Inl QueryError"
    by (rule query_data_failed(1) [OF assms(1) s])
  then show ?thesis
    using assms(2) l
    by (cases "query_data flt v ?w") (simp add: try_refresh_def emit_def)
qed

lemma try_refresh_timed_out:
  assumes "cls v \<noteq> PoolResources" and "valid_date v < clock w"
    and "fst (script w (length (issued w))) = TimedOut"
  shows "fst (try_refresh flt v w) = Inl TimeoutExpired \<and> fst (snd (try_refresh flt v w)) = v"
proof -
  let ?w = "emit Runtime DEBUG (Querying (pool v)) w"
  have s: "fst (script ?w (length (issued ?w))) = TimedOut"
    using assms(3) by (simp add: emit_def)
  have "fst (query_data flt v ?w) = Inl TimeoutExpired"
    by (rule query_data_failed(2) [OF assms(1) s])
  then show ?thesis
    using assms(2)
    by (cases "query_data flt v ?w") (simp add: try_refresh_def)
qed

text \<open>
  C1. On the Capacity View a failed query is not a failed refresh: with the cache
  \<^verbatim>\<open>{cpus: 8, memory: 16384, disk: 200000, machines: 1}\<close> past its expiry and a query
  that exits with a non-zero status, the read of \<^verbatim>\<open>cpus\<close> raises \<^verbatim>\<open>TypeError\<close> and
  the cache is \<^verbatim>\<open>None\<close>. On the Limit View a query that times out raises
  \<^verbatim>\<open>TimeoutExpired\<close> to the reader.
\<close>

theorem failed_query_reaches_reader:
  "fst (getitem decimal_float
      \<lparr>cls = PoolResources, pool = None, max_age = 30, valid_date = 50,
       data = Some [(''cpus'', 8), (''memory'', 16384), (''disk'', 200000), (''machines'', 1)]\<rparr>
      (world_at 100 [NonZeroExit]) ''cpus'') = Inl TypeError
   \<and> data (fst (snd (getitem decimal_float
      \<lparr>cls = PoolResources, pool = None, max_age = 30, valid_date = 50,
       data = Some [(''cpus'', 8), (''memory'', 16384), (''disk'', 200000), (''machines'', 1)]\<rparr>
      (world_at 100 [NonZeroExit]) ''cpus''))) = None
   \<and> fst (getitem decimal_float
      \<lparr>cls = ConcurrencyConstraintView, pool = None, max_age = 10, valid_date = 50,
       data = Some [(''gpu'', 5)]\<rparr>
      (world_at 100 [TimedOut]) ''gpu'') = Inl TimeoutExpired"
  by code_simp

text \<open>
  C10. On the Capacity View a failed query moves the expiry instant: the view of C1,
  whose query at time 100 takes a second and exits with a non-zero status, is left with
  the expiry instant 131, and a read at time 120 runs no command and raises
  \<^verbatim>\<open>TypeError\<close>.
\<close>

theorem failed_query_is_cached:
  "valid_date (fst (snd (try_refresh decimal_float
      \<lparr>cls = PoolResources, pool = None, max_age = 30, valid_date = 50,
       data = Some [(''cpus'', 8), (''memory'', 16384), (''disk'', 200000), (''machines'', 1)]\<rparr>
      (world_at 100 [NonZeroExit])))) = 131
   \<and> issued (snd (snd (getitem decimal_float
      (fst (snd (try_refresh decimal_float
        \<lparr>cls = PoolResources, pool = None, max_age = 30, valid_date = 50,
         data = Some [(''cpus'', 8), (''memory'', 16384), (''disk'', 200000), (''machines'', 1)]\<rparr>
        (world_at 100 [NonZeroExit]))))
      (world_at 120 [Completed [''4 8192 100000 host1'']]) ''cpus''))) = []
   \<and> fst (getitem decimal_float
      (fst (snd (try_refresh decimal_float
        \<lparr>cls = PoolResources, pool = None, max_age = 30, valid_date = 50,
         data = Some [(''cpus'', 8), (''memory'', 16384), (''disk'', 200000), (''machines'', 1)]\<rparr>
        (world_at 100 [NonZeroExit]))))
      (world_at 120 [Completed [''4 8192 100000 host1'']]) ''cpus'') = Inl TypeError"
  by code_simp

section \<open>When a read refreshes\<close>

lemma read_issued:
  "length (issued (snd (snd (getitem flt v w k)))) =
     (if valid_date v < clock w then Suc (length (issued w)) else length (issued w))"
  "length (issued (snd (snd (view_len flt v w)))) =
     (if valid_date v < clock w then Suc (length (issued w)) else length (issued w))"
  "length (issued (snd (snd (view_iter flt v w)))) =
     (if valid_date v < clock w then Suc (length (issued w)) else length (issued w))"
  by (simp_all only: getitem_after_try_refresh reads_after_try_refresh try_refresh_issued)

lemma read_valid:
  assumes "clock w \<le> valid_date v"
  shows "snd (getitem flt v w k) = (v, w)"
    and "snd (view_len flt v w) = (v, w)"
    and "snd (view_iter flt v w) = (v, w)"
  using assms
  by (simp_all add: getitem_after_try_refresh reads_after_try_refresh try_refresh_valid)

lemma try_refresh_expiry:
  assumes "valid_date v < clock w"
    and "fst (query_data flt v (emit Runtime DEBUG (Querying (pool v)) w)) = Inr d"
  shows "fst (snd (try_refresh flt v w)) =
     v\<lparr>data := d,
       valid_date := max_age v
         + clock (snd (query_data flt v (emit Runtime DEBUG (Querying (pool v)) w)))\<rparr>"
  using assms
  by (cases "query_data flt v (emit Runtime DEBUG (Querying (pool v)) w)")
     (simp add: try_refresh_def)

text \<open>
  C2 (as amended). A read is \<^verbatim>\<open>view[k]\<close>, \<^verbatim>\<open>len(view)\<close> or \<^verbatim>\<open>iter(view)\<close>, and a
  refresh is one external query. A freshly constructed view, whatever its TTL, runs
  exactly one query on a read at any time after 0. A refresh whose query returns data
  sets the expiry instant to the TTL after the clock reading taken once the query has
  returned. A read at or before the expiry instant runs no query and leaves the view as
  it is. A read strictly after the expiry instant runs exactly one query.
\<close>

theorem refresh_by_expiry:
  "(0 < clock w0 \<longrightarrow>
      length (issued (snd (snd (getitem flt (init c p t) w0 k)))) = Suc (length (issued w0))
      \<and> length (issued (snd (snd (view_len flt (init c p t) w0)))) = Suc (length (issued w0))
      \<and> length (issued (snd (snd (view_iter flt (init c p t) w0)))) = Suc (length (issued w0)))
   \<and> (valid_date v1 < clock w1
        \<and> fst (query_data flt v1 (emit Runtime DEBUG (Querying (pool v1)) w1)) = Inr d \<longrightarrow>
      valid_date (fst (snd (try_refresh flt v1 w1))) =
        max_age v1 + clock (snd (query_data flt v1 (emit Runtime DEBUG (Querying (pool v1)) w1))))
   \<and> (clock w2 \<le> valid_date v2 \<longrightarrow>
      snd (getitem flt v2 w2 k) = (v2, w2)
      \<and> snd (view_len flt v2 w2) = (v2, w2)
      \<and> snd (view_iter flt v2 w2) = (v2, w2))
   \<and> (valid_date v3 < clock w3 \<longrightarrow>
      length (issued (snd (snd (getitem flt v3 w3 k)))) = Suc (length (issued w3))
      \<and> length (issued (snd (snd (view_len flt v3 w3)))) = Suc (length (issued w3))
      \<and> length (issued (snd (snd (view_iter flt v3 w3)))) = Suc (length (issued w3)))"
proof (intro conjI impI)
  assume "0 < clock w0"
  then have "valid_date (init c p t) < clock w0"
    by (simp add: init_def)
  then show "length (issued (snd (snd (getitem flt (init c p t) w0 k)))) = Suc (length (issued w0))"
    "length (issued (snd (snd (view_len flt (init c p t) w0)))) = Suc (length (issued w0))"
    "length (issued (snd (snd (view_iter flt (init c p t) w0)))) = Suc (length (issued w0))"
    by (simp_all add: read_issued)
next
  assume "valid_date v1 < clock w1
        \<and> fst (query_data flt v1 (emit Runtime DEBUG (Querying (pool v1)) w1)) = Inr d"
  then show "valid_date (fst (snd (try_refresh flt v1 w1))) =
        max_age v1 + clock (snd (query_data flt v1 (emit Runtime DEBUG (Querying (pool v1)) w1)))"
    using try_refresh_expiry [of v1 w1 flt d] by simp
next
  assume "clock w2 \<le> valid_date v2"
  then show "snd (getitem flt v2 w2 k) = (v2, w2)" "snd (view_len flt v2 w2) = (v2, w2)"
    "snd (view_iter flt v2 w2) = (v2, w2)"
    by (rule read_valid)+
next
  assume "valid_date v3 < clock w3"
  then show "length (issued (snd (snd (getitem flt v3 w3 k)))) = Suc (length (issued w3))"
    "length (issued (snd (snd (view_len flt v3 w3)))) = Suc (length (issued w3))"
    "length (issued (snd (snd (view_iter flt v3 w3)))) = Suc (length (issued w3))"
    by (simp_all add: read_issued)
qed

theorem refresh_by_expiry_witness:
  "0 < clock (world_at 100 [Completed [''GPU_LIMIT = 7'']])
   \<and> length (issued (snd (snd (getitem decimal_float (init ConcurrencyConstraintView None 10)
        (world_at 100 [Completed [''GPU_LIMIT = 7'']]) ''GPU'')))) = 1
   \<and> valid_date (init ConcurrencyConstraintView None 10)
        < clock (world_at 100 [Completed [''GPU_LIMIT = 7'']])
   \<and> fst (query_data decimal_float (init ConcurrencyConstraintView None 10)
        (emit Runtime DEBUG (Querying (pool (init ConcurrencyConstraintView None 10)))
           (world_at 100 [Completed [''GPU_LIMIT = 7'']]))) = Inr (Some [(''GPU'', 7)])
   \<and> valid_date (fst (snd (try_refresh decimal_float (init ConcurrencyConstraintView None 10)
        (world_at 100 [Completed [''GPU_LIMIT = 7'']])))) = 111
   \<and> clock (world_at 111 [Completed []])
        \<le> valid_date \<lparr>cls = ConcurrencyConstraintView, pool = None, max_age = 10,
             valid_date = 111, data = Some [(''GPU'', 7)]\<rparr>
   \<and> issued (snd (snd (getitem decimal_float
        \<lparr>cls = ConcurrencyConstraintView, pool = None, max_age = 10, valid_date = 111,
         data = Some [(''GPU'', 7)]\<rparr> (world_at 111 [Completed []]) ''GPU''))) = []
   \<and> valid_date \<lparr>cls = ConcurrencyConstraintView, pool = None, max_age = 10,
             valid_date = 111, data = Some [(''GPU'', 7)]\<rparr>
        < clock (world_at 112 [Completed []])
   \<and> length (issued (snd (snd (view_len decimal_float
        \<lparr>cls = ConcurrencyConstraintView, pool = None, max_age = 10, valid_date = 111,
         data = Some [(''GPU'', 7)]\<rparr> (world_at 112 [Completed []])))))  = 1"
proof -
  let ?i = "init ConcurrencyConstraintView None 10"
  let ?w = "world_at 100 [Completed [''GPU_LIMIT = 7'']]"
  let ?v = "\<lparr>cls = ConcurrencyConstraintView, pool = None, max_age = 10, valid_date = 111,
         data = Some [(''GPU'', 7)]\<rparr>"
  have a: "0 < clock ?w" "valid_date ?i < clock ?w"
    "clock (world_at 111 [Completed []]) \<le> valid_date ?v"
    "valid_date ?v < clock (world_at 112 [Completed []])"
    by (simp_all add: world_at_def init_def)
  have q: "fst (query_data decimal_float ?i (emit Runtime DEBUG (Querying (pool ?i)) ?w))
      = Inr (Some [(''GPU'', 7)])"
    by code_simp
  have c: "max_age ?i + clock (snd (query_data decimal_float ?i
      (emit Runtime DEBUG (Querying (pool ?i)) ?w))) = 111"
    by code_simp
  have e: "issued ?w = []" "issued (world_at 111 [Completed []]) = []"
    "issued (world_at 112 [Completed []]) = []"
    by (simp_all add: world_at_def)
  note t = refresh_by_expiry [of ?w decimal_float ConcurrencyConstraintView None 10 "''GPU''"
      ?i ?w "Some [(''GPU'', 7)]" "world_at 111 [Completed []]" ?v
      ?v "world_at 112 [Completed []]"]
  from t a e have 1: "length (issued (snd (snd (getitem decimal_float ?i ?w ''GPU'')))) = 1"
    by simp
  from t a q c have 2: "valid_date (fst (snd (try_refresh decimal_float ?i ?w))) = 111"
    by simp
  from t a e have 3: "issued (snd (snd (getitem decimal_float ?v
      (world_at 111 [Completed []]) ''GPU''))) = []"
    by simp
  from t a e have 4: "length (issued (snd (snd (view_len decimal_float ?v
      (world_at 112 [Completed []]))))) = 1"
    by simp
  from a q 1 2 3 4 show ?thesis
    by blast
qed

theorem no_refresh_at_expiry_counterexample:
  "issued (snd (snd (getitem decimal_float
      \<lparr>cls = ConcurrencyConstraintView, pool = None, max_age = 10, valid_date = 111,
       data = Some [(''GPU'', 7)]\<rparr> (world_at 111 [Completed [''GPU_LIMIT = 8'']]) ''GPU''))) = []
   \<and> fst (getitem decimal_float
      \<lparr>cls = ConcurrencyConstraintView, pool = None, max_age = 10, valid_date = 111,
       data = Some [(''GPU'', 7)]\<rparr> (world_at 111 [Completed [''GPU_LIMIT = 8'']]) ''GPU'') = Inr 7"
  by code_simp

section \<open>Writing a limit\<close>

text \<open>What \<^verbatim>\<open>_set_constraint\<close> does, by how its two commands end.\<close>

lemma set_constraint_effect:
  "fst (set_constraint v w resource c) =
     (if fst (script w (length (issued w))) = NotStarted
         \<or> (\<exists>ls. fst (script w (length (issued w))) = Completed ls)
             \<and> fst (script w (Suc (length (issued w)))) = NotStarted
      then Inl OSError else Inr ())"
  "fst (snd (set_constraint v w resource c)) =
     (if (\<exists>ls. fst (script w (length (issued w))) = Completed ls)
         \<and> (\<exists>ls. fst (script w (Suc (length (issued w)))) = Completed ls)
      then v\<lparr>valid_date := 0\<rparr> else v)"
  "issued (snd (snd (set_constraint v w resource c))) =
     issued w @
       (if \<exists>ls. fst (script w (length (issued w))) = Completed ls
        then [\<lparr>argv = pool_command [''condor_config_val'', ''-negotiator'', ''-rset'',
                                     resource @ ''_LIMIT = '' @ c] (pool v),
               timeout = Some 10\<rparr>,
              \<lparr>argv = pool_command [''condor_reconfig'', ''-negotiator''] (pool v),
               timeout = Some 10\<rparr>]
        else [\<lparr>argv = pool_command [''condor_config_val'', ''-negotiator'', ''-rset'',
                                     resource @ ''_LIMIT = '' @ c] (pool v),
               timeout = Some 10\<rparr>])"
  "logged (snd (snd (set_constraint v w resource c))) =
     logged w @
       (if fst (script w (length (issued w))) = NonZeroExit
           \<or> fst (script w (length (issued w))) = TimedOut
           \<or> (\<exists>ls. fst (script w (length (issued w))) = Completed ls)
               \<and> (fst (script w (Suc (length (issued w)))) = NonZeroExit
                    \<or> fst (script w (Suc (length (issued w)))) = TimedOut)
        then [(Runtime, ERROR, ConstraintFailed resource c)] else [])"
proof -
  obtain o1 t1 where s1: "script w (length (issued w)) = (o1, t1)"
    by (cases "script w (length (issued w))") auto
  obtain o2 t2 where s2: "script w (Suc (length (issued w))) = (o2, t2)"
    by (cases "script w (Suc (length (issued w)))") auto
  show "fst (set_constraint v w resource c) =
     (if fst (script w (length (issued w))) = NotStarted
         \<or> (\<exists>ls. fst (script w (length (issued w))) = Completed ls)
             \<and> fst (script w (Suc (length (issued w)))) = NotStarted
      then Inl OSError else Inr ())"
    by (cases o1; cases o2)
       (simp_all add: set_constraint_def check_call_def run_process_def emit_def s1 s2)
  show "fst (snd (set_constraint v w resource c)) =
     (if (\<exists>ls. fst (script w (length (issued w))) = Completed ls)
         \<and> (\<exists>ls. fst (script w (Suc (length (issued w)))) = Completed ls)
      then v\<lparr>valid_date := 0\<rparr> else v)"
    by (cases o1; cases o2)
       (simp_all add: set_constraint_def check_call_def run_process_def emit_def s1 s2)
  show "issued (snd (snd (set_constraint v w resource c))) =
     issued w @
       (if \<exists>ls. fst (script w (length (issued w))) = Completed ls
        then [\<lparr>argv = pool_command [''condor_config_val'', ''-negotiator'', ''-rset'',
                                     resource @ ''_LIMIT = '' @ c] (pool v),
               timeout = Some 10\<rparr>,
              \<lparr>argv = pool_command [''condor_reconfig'', ''-negotiator''] (pool v),
               timeout = Some 10\<rparr>]
        else [\<lparr>argv = pool_command [''condor_config_val'', ''-negotiator'', ''-rset'',
                                     resource @ ''_LIMIT = '' @ c] (pool v),
               timeout = Some 10\<rparr>])"
    by (cases o1; cases o2)
       (simp_all add: set_constraint_def check_call_def run_process_def emit_def s1 s2)
  show "logged (snd (snd (set_constraint v w resource c))) =
     logged w @
       (if fst (script w (length (issued w))) = NonZeroExit
           \<or> fst (script w (length (issued w))) = TimedOut
           \<or> (\<exists>ls. fst (script w (length (issued w))) = Completed ls)
               \<and> (fst (script w (Suc (length (issued w)))) = NonZeroExit
                    \<or> fst (script w (Suc (length (issued w)))) = TimedOut)
        then [(Runtime, ERROR, ConstraintFailed resource c)] else [])"
    by (cases o1; cases o2)
       (simp_all add: set_constraint_def check_call_def run_process_def emit_def s1 s2)
qed

text \<open>The writes that raise: a value that is no finite float raises before any command is
  run, and a command that cannot be started raises \<^verbatim>\<open>OSError\<close>; both leave the view,
  and with it the expiry instant, as it was.\<close>

lemma setitem_not_finite:
  "setitem v w key PosInf = (Inl OverflowError, v, w)"
  "setitem v w key NegInf = (Inl OverflowError, v, w)"
  "setitem v w key NaN = (Inl ValueError, v, w)"
  by (simp_all add: setitem_def py_int_def)

lemma write_not_started:
  assumes "fst (script w (length (issued w))) = NotStarted
     \<or> (\<exists>ls. fst (script w (length (issued w))) = Completed ls)
         \<and> fst (script w (Suc (length (issued w)))) = NotStarted"
  shows "fst (setitem v w key (Finite x)) = Inl OSError"
    and "fst (snd (setitem v w key (Finite x))) = v"
    and "fst (delitem v w key) = Inl OSError"
    and "fst (snd (delitem v w key)) = v"
proof -
  let ?c = "str_int (if 0 \<le> x then \<lfloor>x\<rfloor> else \<lceil>x\<rceil>)"
  have "fst (set_constraint v w key ?c) = Inl OSError"
    "fst (snd (set_constraint v w key ?c)) = v"
    using assms set_constraint_effect(1,2) [of v w key ?c] by auto
  then show "fst (setitem v w key (Finite x)) = Inl OSError"
    "fst (snd (setitem v w key (Finite x))) = v"
    by (cases "set_constraint v w key ?c"; simp add: setitem_def py_int_def)+
  have "fst (set_constraint v w key []) = Inl OSError"
    "fst (snd (set_constraint v w key [])) = v"
    using assms set_constraint_effect(1,2) [of v w key "[]"] by auto
  then show "fst (delitem v w key) = Inl OSError" "fst (snd (delitem v w key)) = v"
    by (cases "set_constraint v w key []"; simp add: delitem_def)+
qed

text \<open>The writes that do not raise.\<close>

lemma write_effect:
  assumes "fst (script w (length (issued w))) \<noteq> NotStarted"
    and "(\<exists>ls. fst (script w (length (issued w))) = Completed ls) \<longrightarrow>
           fst (script w (Suc (length (issued w)))) \<noteq> NotStarted"
  shows "fst (setitem v w key (Finite x)) = Inr ()"
    and "fst (snd (setitem v w key (Finite x))) = v\<lparr>valid_date := 0\<rparr>"
    and "snd (snd (setitem v w key (Finite x))) =
           snd (snd (set_constraint v w key (str_int (if 0 \<le> x then \<lfloor>x\<rfloor> else \<lceil>x\<rceil>))))"
    and "fst (delitem v w key) = Inr ()"
    and "fst (snd (delitem v w key)) = v\<lparr>valid_date := 0\<rparr>"
    and "snd (snd (delitem v w key)) = snd (snd (set_constraint v w key []))"
proof -
  let ?c = "str_int (if 0 \<le> x then \<lfloor>x\<rfloor> else \<lceil>x\<rceil>)"
  have r: "fst (set_constraint v w key c) = Inr ()" for c
    using assms set_constraint_effect(1) [of v w key c] by auto
  have u: "fst (snd (set_constraint v w key c)) = v
        \<or> fst (snd (set_constraint v w key c)) = v\<lparr>valid_date := 0\<rparr>" for c
    using set_constraint_effect(2) [of v w key c] by auto
  have "fst (setitem v w key (Finite x)) = Inr ()
      \<and> fst (snd (setitem v w key (Finite x))) = v\<lparr>valid_date := 0\<rparr>
      \<and> snd (snd (setitem v w key (Finite x))) = snd (snd (set_constraint v w key ?c))"
    using r [of ?c] u [of ?c]
    by (cases "set_constraint v w key ?c") (auto simp: setitem_def py_int_def)
  then show "fst (setitem v w key (Finite x)) = Inr ()"
    "fst (snd (setitem v w key (Finite x))) = v\<lparr>valid_date := 0\<rparr>"
    "snd (snd (setitem v w key (Finite x))) = snd (snd (set_constraint v w key ?c))"
    by simp_all
  have "fst (delitem v w key) = Inr ()
      \<and> fst (snd (delitem v w key)) = v\<lparr>valid_date := 0\<rparr>
      \<and> snd (snd (delitem v w key)) = snd (snd (set_constraint v w key []))"
    using r [of "[]"] u [of "[]"]
    by (cases "set_constraint v w key []") (auto simp: delitem_def)
  then show "fst (delitem v w key) = Inr ()"
    "fst (snd (delitem v w key)) = v\<lparr>valid_date := 0\<rparr>"
    "snd (snd (delitem v w key)) = snd (snd (set_constraint v w key []))"
    by simp_all
qed

lemma read_after_write:
  "0 < clock w2 \<longrightarrow>
     length (issued (snd (snd (getitem flt (v\<lparr>valid_date := 0\<rparr>) w2 k))))
       = Suc (length (issued w2))"
  by (simp add: read_issued)

text \<open>
  C3 (as amended). Let the value be a finite float \<open>x\<close>, and let every command that
  \<^verbatim>\<open>view[key] = x\<close> runs on the Limit View be one that can be started. Then the write
  does not raise. It runs the command that sets \<^verbatim>\<open>key_LIMIT\<close> to the integer
  \<^verbatim>\<open>int(x)\<close> and then, only when that command has completed, the command that
  reconfigures the negotiator, each with a timeout of 10 seconds. When a command exits
  with a non-zero status or times out, one error record is logged. In each of these
  cases the view is left as it was but for the expiry instant, which is 0, so that the
  next read, at any time after 0, runs exactly one query. \<^verbatim>\<open>del view[key]\<close> does the
  same with the empty value.
\<close>

theorem limit_view_write:
  "fst (script w (length (issued w))) \<noteq> NotStarted
   \<and> ((\<exists>ls. fst (script w (length (issued w))) = Completed ls) \<longrightarrow>
          fst (script w (Suc (length (issued w)))) \<noteq> NotStarted) \<longrightarrow>
   fst (setitem v w key (Finite x)) = Inr ()
   \<and> fst (snd (setitem v w key (Finite x))) = v\<lparr>valid_date := 0\<rparr>
   \<and> issued (snd (snd (setitem v w key (Finite x)))) =
       issued w @
         (if \<exists>ls. fst (script w (length (issued w))) = Completed ls
          then [\<lparr>argv = pool_command [''condor_config_val'', ''-negotiator'', ''-rset'',
                         key @ ''_LIMIT = '' @ str_int (if 0 \<le> x then \<lfloor>x\<rfloor> else \<lceil>x\<rceil>)]
                         (pool v),
                 timeout = Some 10\<rparr>,
                \<lparr>argv = pool_command [''condor_reconfig'', ''-negotiator''] (pool v),
                 timeout = Some 10\<rparr>]
          else [\<lparr>argv = pool_command [''condor_config_val'', ''-negotiator'', ''-rset'',
                         key @ ''_LIMIT = '' @ str_int (if 0 \<le> x then \<lfloor>x\<rfloor> else \<lceil>x\<rceil>)]
                         (pool v),
                 timeout = Some 10\<rparr>])
   \<and> logged (snd (snd (setitem v w key (Finite x)))) =
       logged w @
         (if (\<exists>ls. fst (script w (length (issued w))) = Completed ls)
             \<and> (\<exists>ls. fst (script w (Suc (length (issued w)))) = Completed ls)
          then []
          else [(Runtime, ERROR,
                 ConstraintFailed key (str_int (if 0 \<le> x then \<lfloor>x\<rfloor> else \<lceil>x\<rceil>)))])
   \<and> (0 < clock w2 \<longrightarrow>
        length (issued (snd (snd (getitem flt (fst (snd (setitem v w key (Finite x)))) w2 k))))
          = Suc (length (issued w2)))
   \<and> fst (delitem v w key) = Inr ()
   \<and> fst (snd (delitem v w key)) = v\<lparr>valid_date := 0\<rparr>
   \<and> issued (snd (snd (delitem v w key))) =
       issued w @
         (if \<exists>ls. fst (script w (length (issued w))) = Completed ls
          then [\<lparr>argv = pool_command [''condor_config_val'', ''-negotiator'', ''-rset'',
                                       key @ ''_LIMIT = '' @ []] (pool v),
                 timeout = Some 10\<rparr>,
                \<lparr>argv = pool_command [''condor_reconfig'', ''-negotiator''] (pool v),
                 timeout = Some 10\<rparr>]
          else [\<lparr>argv = pool_command [''condor_config_val'', ''-negotiator'', ''-rset'',
                                       key @ ''_LIMIT = '' @ []] (pool v),
                 timeout = Some 10\<rparr>])
   \<and> logged (snd (snd (delitem v w key))) =
       logged w @
         (if (\<exists>ls. fst (script w (length (issued w))) = Completed ls)
             \<and> (\<exists>ls. fst (script w (Suc (length (issued w)))) = Completed ls)
          then [] else [(Runtime, ERROR, ConstraintFailed key [])])
   \<and> (0 < clock w2 \<longrightarrow>
        length (issued (snd (snd (getitem flt (fst (snd (delitem v w key))) w2 k))))
          = Suc (length (issued w2)))"
proof (rule impI)
  let ?o1 = "fst (script w (length (issued w)))"
  let ?o2 = "fst (script w (Suc (length (issued w))))"
  assume "?o1 \<noteq> NotStarted \<and> ((\<exists>ls. ?o1 = Completed ls) \<longrightarrow> ?o2 \<noteq> NotStarted)"
  then have a: "?o1 \<noteq> NotStarted" and b: "(\<exists>ls. ?o1 = Completed ls) \<longrightarrow> ?o2 \<noteq> NotStarted"
    by simp_all
  have l: "(?o1 = NonZeroExit \<or> ?o1 = TimedOut
        \<or> (\<exists>ls. ?o1 = Completed ls) \<and> (?o2 = NonZeroExit \<or> ?o2 = TimedOut))
      = (\<not> ((\<exists>ls. ?o1 = Completed ls) \<and> (\<exists>ls. ?o2 = Completed ls)))"
    using a b by (cases ?o1; cases ?o2) simp_all
  have e: "(if \<not> P then [y] else []) = (if P then [] else [y])" for P and y :: "'a"
    by simp
  show "fst (setitem v w key (Finite x)) = Inr ()
   \<and> fst (snd (setitem v w key (Finite x))) = v\<lparr>valid_date := 0\<rparr>
   \<and> issued (snd (snd (setitem v w key (Finite x)))) =
       issued w @
         (if \<exists>ls. fst (script w (length (issued w))) = Completed ls
          then [\<lparr>argv = pool_command [''condor_config_val'', ''-negotiator'', ''-rset'',
                         key @ ''_LIMIT = '' @ str_int (if 0 \<le> x then \<lfloor>x\<rfloor> else \<lceil>x\<rceil>)]
                         (pool v),
                 timeout = Some 10\<rparr>,
                \<lparr>argv = pool_command [''condor_reconfig'', ''-negotiator''] (pool v),
                 timeout = Some 10\<rparr>]
          else [\<lparr>argv = pool_command [''condor_config_val'', ''-negotiator'', ''-rset'',
                         key @ ''_LIMIT = '' @ str_int (if 0 \<le> x then \<lfloor>x\<rfloor> else \<lceil>x\<rceil>)]
                         (pool v),
                 timeout = Some 10\<rparr>])
   \<and> logged (snd (snd (setitem v w key (Finite x)))) =
       logged w @
         (if (\<exists>ls. fst (script w (length (issued w))) = Completed ls)
             \<and> (\<exists>ls. fst (script w (Suc (length (issued w)))) = Completed ls)
          then []
          else [(Runtime, ERROR,
                 ConstraintFailed key (str_int (if 0 \<le> x then \<lfloor>x\<rfloor> else \<lceil>x\<rceil>)))])
   \<and> (0 < clock w2 \<longrightarrow>
        length (issued (snd (snd (getitem flt (fst (snd (setitem v w key (Finite x)))) w2 k))))
          = Suc (length (issued w2)))
   \<and> fst (delitem v w key) = Inr ()
   \<and> fst (snd (delitem v w key)) = v\<lparr>valid_date := 0\<rparr>
   \<and> issued (snd (snd (delitem v w key))) =
       issued w @
         (if \<exists>ls. fst (script w (length (issued w))) = Completed ls
          then [\<lparr>argv = pool_command [''condor_config_val'', ''-negotiator'', ''-rset'',
                                       key @ ''_LIMIT = '' @ []] (pool v),
                 timeout = Some 10\<rparr>,
                \<lparr>argv = pool_command [''condor_reconfig'', ''-negotiator''] (pool v),
                 timeout = Some 10\<rparr>]
          else [\<lparr>argv = pool_command [''condor_config_val'', ''-negotiator'', ''-rset'',
                                       key @ ''_LIMIT = '' @ []] (pool v),
                 timeout = Some 10\<rparr>])
   \<and> logged (snd (snd (delitem v w key))) =
       logged w @
         (if (\<exists>ls. fst (script w (length (issued w))) = Completed ls)
             \<and> (\<exists>ls. fst (script w (Suc (length (issued w)))) = Completed ls)
          then [] else [(Runtime, ERROR, ConstraintFailed key [])])
   \<and> (0 < clock w2 \<longrightarrow>
        length (issued (snd (snd (getitem flt (fst (snd (delitem v w key))) w2 k))))
          = Suc (length (issued w2)))"
    by (simp only: write_effect [OF a b] set_constraint_effect(3,4) l e simp_thms)
       (intro conjI read_after_write)
qed

theorem limit_view_write_witness:
  "fst (script (world_at 100 [Completed [], TimedOut])
          (length (issued (world_at 100 [Completed [], TimedOut])))) = Completed []
   \<and> fst (script (world_at 100 [Completed [], TimedOut])
          (Suc (length (issued (world_at 100 [Completed [], TimedOut]))))) = TimedOut
   \<and> clock (world_at 101 [Completed [''gpu_LIMIT = 10'']])
        < valid_date \<lparr>cls = ConcurrencyConstraintView, pool = None, max_age = 1000,
             valid_date = 500, data = Some [(''gpu'', 5)]\<rparr>
   \<and> 0 < clock (world_at 101 [Completed [''gpu_LIMIT = 10'']])
   \<and> fst (setitem \<lparr>cls = ConcurrencyConstraintView, pool = None, max_age = 1000,
             valid_date = 500, data = Some [(''gpu'', 5)]\<rparr>
        (world_at 100 [Completed [], TimedOut]) ''gpu'' (Finite 10)) = Inr ()
   \<and> fst (snd (setitem \<lparr>cls = ConcurrencyConstraintView, pool = None, max_age = 1000,
             valid_date = 500, data = Some [(''gpu'', 5)]\<rparr>
        (world_at 100 [Completed [], TimedOut]) ''gpu'' (Finite 10))) =
       \<lparr>cls = ConcurrencyConstraintView, pool = None, max_age = 1000,
        valid_date = 0, data = Some [(''gpu'', 5)]\<rparr>
   \<and> issued (snd (snd (setitem \<lparr>cls = ConcurrencyConstraintView, pool = None, max_age = 1000,
             valid_date = 500, data = Some [(''gpu'', 5)]\<rparr>
        (world_at 100 [Completed [], TimedOut]) ''gpu'' (Finite 10)))) =
       [\<lparr>argv = [''condor_config_val'', ''-negotiator'', ''-rset'', ''gpu_LIMIT = 10''],
         timeout = Some 10\<rparr>,
        \<lparr>argv = [''condor_reconfig'', ''-negotiator''], timeout = Some 10\<rparr>]
   \<and> logged (snd (snd (setitem \<lparr>cls = ConcurrencyConstraintView, pool = None, max_age = 1000,
             valid_date = 500, data = Some [(''gpu'', 5)]\<rparr>
        (world_at 100 [Completed [], TimedOut]) ''gpu'' (Finite 10)))) =
       [(Runtime, ERROR, ConstraintFailed ''gpu'' ''10'')]
   \<and> length (issued (snd (snd (getitem decimal_float
        (fst (snd (setitem \<lparr>cls = ConcurrencyConstraintView, pool = None, max_age = 1000,
             valid_date = 500, data = Some [(''gpu'', 5)]\<rparr>
           (world_at 100 [Completed [], TimedOut]) ''gpu'' (Finite 10))))
        (world_at 101 [Completed [''gpu_LIMIT = 10'']]) ''gpu'')))) = 1
   \<and> length (issued (snd (snd (getitem decimal_float
        (fst (snd (delitem \<lparr>cls = ConcurrencyConstraintView, pool = None, max_age = 1000,
             valid_date = 500, data = Some [(''gpu'', 5)]\<rparr>
           (world_at 100 [Completed [], TimedOut]) ''gpu'')))
        (world_at 101 [Completed [''gpu_LIMIT = 10'']]) ''gpu'')))) = 1"
proof -
  let ?v = "\<lparr>cls = ConcurrencyConstraintView, pool = None, max_age = 1000,
             valid_date = 500, data = Some [(''gpu'', 5)]\<rparr>"
  let ?w = "world_at 100 [Completed [], TimedOut]"
  let ?w2 = "world_at 101 [Completed [''gpu_LIMIT = 10'']]"
  have a: "0 < clock ?w2" "clock ?w2 < valid_date ?v"
    by (simp_all add: world_at_def)
  have e: "issued ?w = []" "logged ?w = []" "issued ?w2 = []" "pool ?v = None"
    by (simp_all add: world_at_def)
  have o: "fst (script ?w (length (issued ?w))) = Completed []"
    "fst (script ?w (Suc (length (issued ?w)))) = TimedOut"
    by (simp_all add: world_at_def)
  have o': "fst (script ?w 0) = Completed []" "fst (script ?w (Suc 0)) = TimedOut"
    by (simp_all add: world_at_def)
  have h: "fst (script ?w (length (issued ?w))) \<noteq> NotStarted
     \<and> ((\<exists>ls. fst (script ?w (length (issued ?w))) = Completed ls) \<longrightarrow>
            fst (script ?w (Suc (length (issued ?w)))) \<noteq> NotStarted)"
    by (simp add: o)
  have s: "str_int (if 0 \<le> (10::real) then \<lfloor>10::real\<rfloor> else \<lceil>10::real\<rceil>) = ''10''"
    by code_simp
  note t = limit_view_write [of ?w ?v "''gpu''" 10 ?w2 decimal_float "''gpu''", rule_format, OF h]
  from t have 1: "fst (setitem ?v ?w ''gpu'' (Finite 10)) = Inr ()"
    by blast
  from t have "fst (snd (setitem ?v ?w ''gpu'' (Finite 10))) = ?v\<lparr>valid_date := 0\<rparr>"
    by blast
  then have 2: "fst (snd (setitem ?v ?w ''gpu'' (Finite 10))) =
       \<lparr>cls = ConcurrencyConstraintView, pool = None, max_age = 1000,
        valid_date = 0, data = Some [(''gpu'', 5)]\<rparr>"
    by simp
  from t have "issued (snd (snd (setitem ?v ?w ''gpu'' (Finite 10)))) =
       issued ?w @
         (if \<exists>ls. fst (script ?w (length (issued ?w))) = Completed ls
          then [\<lparr>argv = pool_command [''condor_config_val'', ''-negotiator'', ''-rset'',
                    ''gpu'' @ ''_LIMIT = ''
                      @ str_int (if 0 \<le> (10::real) then \<lfloor>10::real\<rfloor> else \<lceil>10::real\<rceil>)]
                    (pool ?v),
                 timeout = Some 10\<rparr>,
                \<lparr>argv = pool_command [''condor_reconfig'', ''-negotiator''] (pool ?v),
                 timeout = Some 10\<rparr>]
          else [\<lparr>argv = pool_command [''condor_config_val'', ''-negotiator'', ''-rset'',
                    ''gpu'' @ ''_LIMIT = ''
                      @ str_int (if 0 \<le> (10::real) then \<lfloor>10::real\<rfloor> else \<lceil>10::real\<rceil>)]
                    (pool ?v),
                 timeout = Some 10\<rparr>])"
    by blast
  then have 3: "issued (snd (snd (setitem ?v ?w ''gpu'' (Finite 10)))) =
       [\<lparr>argv = [''condor_config_val'', ''-negotiator'', ''-rset'', ''gpu_LIMIT = 10''],
         timeout = Some 10\<rparr>,
        \<lparr>argv = [''condor_reconfig'', ''-negotiator''], timeout = Some 10\<rparr>]"
    by (simp only: s) (simp add: e o')
  from t have "logged (snd (snd (setitem ?v ?w ''gpu'' (Finite 10)))) =
       logged ?w @
         (if (\<exists>ls. fst (script ?w (length (issued ?w))) = Completed ls)
             \<and> (\<exists>ls. fst (script ?w (Suc (length (issued ?w)))) = Completed ls)
          then []
          else [(Runtime, ERROR,
                 ConstraintFailed ''gpu''
                   (str_int (if 0 \<le> (10::real) then \<lfloor>10::real\<rfloor> else \<lceil>10::real\<rceil>)))])"
    by blast
  then have 4: "logged (snd (snd (setitem ?v ?w ''gpu'' (Finite 10)))) =
       [(Runtime, ERROR, ConstraintFailed ''gpu'' ''10'')]"
    by (simp only: s) (simp add: e o')
  from t a have "length (issued (snd (snd (getitem decimal_float
        (fst (snd (setitem ?v ?w ''gpu'' (Finite 10)))) ?w2 ''gpu'')))) = Suc (length (issued ?w2))"
    by blast
  then have 5: "length (issued (snd (snd (getitem decimal_float
        (fst (snd (setitem ?v ?w ''gpu'' (Finite 10)))) ?w2 ''gpu'')))) = 1"
    by (simp add: e)
  from t a have "length (issued (snd (snd (getitem decimal_float
        (fst (snd (delitem ?v ?w ''gpu''))) ?w2 ''gpu'')))) = Suc (length (issued ?w2))"
    by blast
  then have 6: "length (issued (snd (snd (getitem decimal_float
        (fst (snd (delitem ?v ?w ''gpu''))) ?w2 ''gpu'')))) = 1"
    by (simp add: e)
  from o a 1 2 3 4 5 6 show ?thesis
    by blast
qed

theorem write_not_as_claimed_counterexample:
  "issued (snd (snd (setitem
      \<lparr>cls = ConcurrencyConstraintView, pool = None, max_age = 1000, valid_date = 500,
       data = Some [(''gpu'', 5)]\<rparr>
      (world_at 100 [NonZeroExit, Completed []]) ''gpu'' (Finite 10)))) =
     [\<lparr>argv = [''condor_config_val'', ''-negotiator'', ''-rset'', ''gpu_LIMIT = 10''],
       timeout = Some 10\<rparr>]
   \<and> fst (setitem
      \<lparr>cls = ConcurrencyConstraintView, pool = None, max_age = 1000, valid_date = 500,
       data = Some [(''gpu'', 5)]\<rparr>
      (world_at 100 [NotStarted]) ''gpu'' (Finite 10)) = Inl OSError
   \<and> valid_date (fst (snd (setitem
      \<lparr>cls = ConcurrencyConstraintView, pool = None, max_age = 1000, valid_date = 500,
       data = Some [(''gpu'', 5)]\<rparr>
      (world_at 100 [NotStarted]) ''gpu'' (Finite 10)))) = 500
   \<and> issued (snd (snd (getitem decimal_float
      (fst (snd (setitem
        \<lparr>cls = ConcurrencyConstraintView, pool = None, max_age = 1000, valid_date = 500,
         data = Some [(''gpu'', 5)]\<rparr>
        (world_at 100 [NotStarted]) ''gpu'' (Finite 10))))
      (world_at 101 [Completed [''gpu_LIMIT = 10'']]) ''gpu''))) = []
   \<and> fst (setitem
      \<lparr>cls = ConcurrencyConstraintView, pool = None, max_age = 1000, valid_date = 500,
       data = Some [(''gpu'', 5)]\<rparr>
      (world_at 100 [Completed [], Completed []]) ''gpu'' NaN) = Inl ValueError
   \<and> issued (snd (snd (setitem
      \<lparr>cls = ConcurrencyConstraintView, pool = None, max_age = 1000, valid_date = 500,
       data = Some [(''gpu'', 5)]\<rparr>
      (world_at 100 [Completed [], Completed []]) ''gpu'' NaN))) = []
   \<and> valid_date (fst (snd (setitem
      \<lparr>cls = ConcurrencyConstraintView, pool = None, max_age = 1000, valid_date = 500,
       data = Some [(''gpu'', 5)]\<rparr>
      (world_at 100 [Completed [], Completed []]) ''gpu'' NaN))) = 500
   \<and> fst (setitem
      \<lparr>cls = ConcurrencyConstraintView, pool = None, max_age = 1000, valid_date = 500,
       data = Some [(''gpu'', 5)]\<rparr>
      (world_at 100 [Completed [], Completed []]) ''gpu'' PosInf) = Inl OverflowError"
  by code_simp

end
